theory Spec2Isabelle
  imports Main "HOL-Library.Log_Nat"
begin

section \<open>Python strings\<close>

text \<open>
  A Python \<^verbatim>\<open>str\<close> is a sequence of Unicode code points, so it is modelled as a list of
  integers, the values of \<^verbatim>\<open>ord\<close> (\<open>0x31\<close> is the digit one, \<open>0xC131\<close> a Hangul syllable). The literals of
  the program are written out as code point lists.
\<close>

type_synonym ustr = "int list"

text \<open>
  The digit class of the \<^verbatim>\<open>re\<close> module on a \<^verbatim>\<open>str\<close> pattern matches the Unicode decimal digits
  (category Nd): 61 blocks of ten code points and the mathematical digits
  \<open>0x1D7CE\<close> to \<open>0x1D7FF\<close>.
\<close>

definition decimal_digit_blocks :: "int list" where
  "decimal_digit_blocks =
     [0x30, 0x660, 0x6F0, 0x7C0, 0x966, 0x9E6, 0xA66, 0xAE6, 0xB66, 0xBE6, 0xC66, 0xCE6, 0xD66,
      0xDE6, 0xE50, 0xED0, 0xF20, 0x1040, 0x1090, 0x17E0, 0x1810, 0x1946, 0x19D0, 0x1A80,
      0x1A90, 0x1B50, 0x1BB0, 0x1C40, 0x1C50, 0xA620, 0xA8D0, 0xA900, 0xA9D0, 0xA9F0, 0xAA50,
      0xABF0, 0xFF10, 0x104A0, 0x10D30, 0x11066, 0x110F0, 0x11136, 0x111D0, 0x112F0, 0x11450,
      0x114D0, 0x11650, 0x116C0, 0x11730, 0x118E0, 0x11950, 0x11C50, 0x11D50, 0x11DA0,
      0x16A60, 0x16AC0, 0x16B50, 0x1E140, 0x1E2F0, 0x1E950, 0x1FBF0]"

definition is_digit :: "int \<Rightarrow> bool" where
  "is_digit c = (list_ex (\<lambda>s. s \<le> c \<and> c < s + 10) decimal_digit_blocks
                 \<or> (0x1D7CE \<le> c \<and> c \<le> 0x1D7FF))"

text \<open>A search for one digit and a search for a run of digits succeed on the same strings.\<close>

definition has_digit :: "ustr \<Rightarrow> bool" where
  "has_digit s = list_ex is_digit s"

text \<open>
  The white space of \<^verbatim>\<open>str.split()\<close>, \<^verbatim>\<open>str.strip()\<close> and the space class of \<^verbatim>\<open>re\<close>: the code points on
  which \<^verbatim>\<open>str.isspace\<close> holds.
\<close>

definition whitespace_code_points :: "int list" where
  "whitespace_code_points =
     [0x9, 0xA, 0xB, 0xC, 0xD, 0x1C, 0x1D, 0x1E, 0x1F, 0x20, 0x85, 0xA0, 0x1680, 0x2000,
      0x2001, 0x2002, 0x2003, 0x2004, 0x2005, 0x2006, 0x2007, 0x2008, 0x2009, 0x200A, 0x2028,
      0x2029, 0x202F, 0x205F, 0x3000]"

definition is_space :: "int \<Rightarrow> bool" where
  "is_space c = (c \<in> set whitespace_code_points)"

text \<open>
  \<^verbatim>\<open>str.lower()\<close>. The strings of the program that a lowered keyword is compared with are
  made of lower-case ASCII letters, upper-case ASCII letters that are lowered themselves,
  white space and Hangul. The only code points whose lower-case form contains such a
  character and differs from the code point are \<open>A\<close> to \<open>Z\<close>, \<open>0x130\<close> (lowered to the
  two code points \<open>0x69 0x307\<close>) and the Kelvin sign \<open>0x212A\<close> (lowered to \<open>k\<close>). Other
  cased letters are left as they are here: their lower-case forms are outside the
  alphabet of every string they are compared with, as they are themselves, so no
  comparison of this program changes.
\<close>

definition lower_code_point :: "int \<Rightarrow> ustr" where
  "lower_code_point c =
     (if 0x41 \<le> c \<and> c \<le> 0x5A then [c + 0x20]
      else if c = 0x130 then [0x69, 0x307]
      else if c = 0x212A then [0x6B]
      else [c])"

definition py_lower :: "ustr \<Rightarrow> ustr" where
  "py_lower s = concat (map lower_code_point s)"

fun startswith :: "ustr \<Rightarrow> ustr \<Rightarrow> bool" where
  "startswith s [] = True"
| "startswith [] (p # ps) = False"
| "startswith (c # cs) (p # ps) = (c = p \<and> startswith cs ps)"

text \<open>\<open>is_in a b\<close> is Python's \<^verbatim>\<open>a in b\<close> on strings: \<open>a\<close> is a contiguous part of \<open>b\<close>.\<close>

fun is_in :: "ustr \<Rightarrow> ustr \<Rightarrow> bool" where
  "is_in a [] = (a = [])"
| "is_in a (c # cs) = (startswith (c # cs) a \<or> is_in a cs)"

definition py_strip :: "ustr \<Rightarrow> ustr" where
  "py_strip s = rev (dropWhile is_space (rev (dropWhile is_space s)))"

text \<open>\<^verbatim>\<open>str.split()\<close> without argument: the maximal runs of characters that are not white space.\<close>

fun split_runs :: "ustr \<Rightarrow> ustr \<Rightarrow> ustr list" where
  "split_runs cur [] = (if cur = [] then [] else [cur])"
| "split_runs cur (c # cs) =
     (if is_space c then (if cur = [] then split_runs [] cs else cur # split_runs [] cs)
      else split_runs (cur @ [c]) cs)"

definition py_split :: "ustr \<Rightarrow> ustr list" where
  "py_split s = split_runs [] s"

section \<open>Python floats\<close>

text \<open>
  A finite IEEE 754 double is an integer significand of at most 53 bits times a power of
  two. \<open>Dyadic m e\<close> stands for \<open>m * 2\<^sup>e\<close>; \<open>fval\<close> is that rational number. Every
  arithmetic operation of the program on floats is the exact operation followed by
  rounding to 53 significant bits, to the nearest value and on a tie to the even
  significand (\<open>round53\<close>). The exponent range is not bounded here: the values of this
  program stay far from both ends of it, except for the conversion of an unbounded
  integer, where the overflow is checked.
\<close>

datatype pyfloat = Dyadic int int

definition pow2 :: "int \<Rightarrow> rat" where
  "pow2 e = (if 0 \<le> e then 2 ^ nat e else 1 / 2 ^ nat (- e))"

fun fval :: "pyfloat \<Rightarrow> rat" where
  "fval (Dyadic m e) = of_int m * pow2 e"

text \<open>\<open>shift_round m k\<close> is the integer nearest to \<open>m / 2\<^sup>k\<close>, the even one on a tie.\<close>

definition shift_round :: "int \<Rightarrow> nat \<Rightarrow> int" where
  "shift_round m k =
     (if k = 0 then m
      else let q = m div 2 ^ k; r = m mod 2 ^ k; h = 2 ^ (k - 1)
           in if r < h then q else if h < r then q + 1 else if even q then q else q + 1)"

definition round53 :: "int \<Rightarrow> int \<Rightarrow> pyfloat" where
  "round53 m e =
     (if bitlen \<bar>m\<bar> \<le> 53 then Dyadic m e
      else Dyadic (sgn m * shift_round \<bar>m\<bar> (nat (bitlen \<bar>m\<bar> - 53))) (e + (bitlen \<bar>m\<bar> - 53)))"

fun fadd :: "pyfloat \<Rightarrow> pyfloat \<Rightarrow> pyfloat" where
  "fadd (Dyadic m1 e1) (Dyadic m2 e2) =
     (if e1 \<le> e2 then round53 (m1 + m2 * 2 ^ nat (e2 - e1)) e1
      else round53 (m1 * 2 ^ nat (e1 - e2) + m2) e2)"

fun fmul :: "pyfloat \<Rightarrow> pyfloat \<Rightarrow> pyfloat" where
  "fmul (Dyadic m1 e1) (Dyadic m2 e2) = round53 (m1 * m2) (e1 + e2)"

text \<open>The comparisons \<^verbatim>\<open><\<close> and \<^verbatim>\<open><=\<close> of two floats, on a common exponent.\<close>

fun fless :: "pyfloat \<Rightarrow> pyfloat \<Rightarrow> bool" where
  "fless (Dyadic m1 e1) (Dyadic m2 e2) =
     (if e1 \<le> e2 then m1 < m2 * 2 ^ nat (e2 - e1) else m1 * 2 ^ nat (e1 - e2) < m2)"

fun fle :: "pyfloat \<Rightarrow> pyfloat \<Rightarrow> bool" where
  "fle (Dyadic m1 e1) (Dyadic m2 e2) =
     (if e1 \<le> e2 then m1 \<le> m2 * 2 ^ nat (e2 - e1) else m1 * 2 ^ nat (e1 - e2) \<le> m2)"

text \<open>\<^verbatim>\<open>min(a, b)\<close> and \<^verbatim>\<open>max(a, b)\<close> return \<open>a\<close> unless \<open>b\<close> is strictly better.\<close>

definition fmin :: "pyfloat \<Rightarrow> pyfloat \<Rightarrow> pyfloat" where
  "fmin a b = (if fless b a then b else a)"

definition fmax :: "pyfloat \<Rightarrow> pyfloat \<Rightarrow> pyfloat" where
  "fmax a b = (if fless a b then b else a)"

text \<open>
  The decimal literals of the source denote the nearest doubles; these are their
  significands and exponents (\<^verbatim>\<open>float.hex\<close> shows them).
\<close>

definition f_0_0 :: pyfloat where "f_0_0 = Dyadic 0 0"
definition f_1_0 :: pyfloat where "f_1_0 = Dyadic 1 0"
definition f_0_5 :: pyfloat where "f_0_5 = Dyadic 1 (- 1)"
definition f_1_2 :: pyfloat where "f_1_2 = Dyadic 5404319552844595 (- 52)"
definition f_1_1 :: pyfloat where "f_1_1 = Dyadic 4953959590107546 (- 52)"
definition f_0_9 :: pyfloat where "f_0_9 = Dyadic 8106479329266893 (- 53)"
definition f_0_8 :: pyfloat where "f_0_8 = Dyadic 7205759403792794 (- 53)"
definition f_0_7 :: pyfloat where "f_0_7 = Dyadic 6305039478318694 (- 53)"
definition f_0_4 :: pyfloat where "f_0_4 = Dyadic 7205759403792794 (- 54)"
definition f_0_3 :: pyfloat where "f_0_3 = Dyadic 5404319552844595 (- 54)"
definition f_0_2 :: pyfloat where "f_0_2 = Dyadic 7205759403792794 (- 55)"
definition f_0_1 :: pyfloat where "f_0_1 = Dyadic 7205759403792794 (- 56)"

section \<open>The section classifier of text_processor.py\<close>

text \<open>
  The eleven section names, in the order of the configuration dictionary
  \<^verbatim>\<open>section_keyword_sets\<close>, which is also the order of the result dictionary. Their
  meanings: ingredients and strength, appearance, efficacy, dosage, precautions,
  interactions, use in pregnancy and lactation, use in the elderly, cautions on
  application, storage and handling, manufacturer and seller.
\<close>

definition sec_ingredients :: ustr where
  "sec_ingredients = [0xC131, 0xBD84, 0x20, 0xBC0F, 0x20, 0xD568, 0xB7C9]"

definition sec_appearance :: ustr where
  "sec_appearance = [0xC131, 0xC0C1]"

definition sec_efficacy :: ustr where
  "sec_efficacy = [0xD6A8, 0xB2A5, 0x20, 0xBC0F, 0x20, 0xD6A8, 0xACFC]"

definition sec_dosage :: ustr where
  "sec_dosage = [0xC6A9, 0xBC95, 0x20, 0xBC0F, 0x20, 0xC6A9, 0xB7C9]"

definition sec_precautions :: ustr where
  "sec_precautions = [0xC0AC, 0xC6A9, 0xC0C1, 0x20, 0xC8FC, 0xC758, 0xC0AC, 0xD56D]"

definition sec_interactions :: ustr where
  "sec_interactions = [0xC0C1, 0xD638, 0xC791, 0xC6A9]"

definition sec_pregnancy :: ustr where
  "sec_pregnancy = [0xC784, 0xBD80, 0x20, 0xBC0F, 0x20, 0xC218, 0xC720, 0xBD80, 0x20, 0xC0AC, 0xC6A9]"

definition sec_elderly :: ustr where
  "sec_elderly = [0xACE0, 0xB839, 0xC790, 0x20, 0xC0AC, 0xC6A9]"

definition sec_application :: ustr where
  "sec_application = [0xC801, 0xC6A9, 0x20, 0xC2DC, 0x20, 0xC8FC, 0xC758, 0xC0AC, 0xD56D]"

definition sec_storage :: ustr where
  "sec_storage = [0xBCF4, 0xAD00, 0x20, 0xBC0F, 0x20, 0xCDE8, 0xAE09]"

definition sec_manufacturer :: ustr where
  "sec_manufacturer = [0xC81C, 0xC870, 0x20, 0xBC0F, 0x20, 0xD310, 0xB9E4, 0xC0AC, 0x20, 0xC815, 0xBCF4]"

definition sec_ingredients_keywords :: "ustr list" where
  "sec_ingredients_keywords =
     [[0xC131, 0xBD84], [0xC8FC, 0xC131, 0xBD84], [0xCCA8, 0xAC00, 0xC81C],
      [0xACB0, 0xD569, 0xC81C], [0xD76C, 0xC11D, 0xC81C],
      [0xC544, 0xC138, 0xD2B8, 0xC544, 0xBBF8, 0xB178, 0xD39C],
      [0xC774, 0xBD80, 0xD504, 0xB85C, 0xD39C], [0xC544, 0xC2A4, 0xD53C, 0xB9B0],
      [0xC138, 0xB9C8, 0xAE00, 0xB8E8, 0xD0C0, 0xC774, 0xB4DC],
      [0xBA54, 0xD2B8, 0xD3EC, 0xB974, 0xBBFC], [0xD30C, 0xC138, 0xD0C0, 0xBBFC],
      [0x55, 0x53, 0x50], [0x45, 0x50], [0x4A, 0x50], [0xC21C, 0xB3C4], [0xC544, 0xC138, 0xD2B8],
      [0xC544, 0xBBF8, 0xB178], [0xD39C], [0xC774, 0xBD80], [0xD504, 0xB85C], [0xC138, 0xB9C8],
      [0xAE00, 0xB8E8], [0xD0C0, 0xC774, 0xB4DC], [0xBA54, 0xD2B8], [0xD3EC, 0xB974, 0xBBFC],
      [0xAE00, 0xB9AC], [0xBA54, 0xD53C], [0xB9AC, 0xB4DC], [0xD30C, 0xC138], [0xD0C0, 0xBBFC],
      [0x6D, 0x67], [0x67], [0x6D, 0x6C], [0x6D, 0x63, 0x67], [0xB2E8, 0xC704], [0xD568, 0xB7C9],
      [0xBC30, 0xD569, 0xBAA9, 0xC801], [0xC8FC, 0xC131, 0xBD84],
      [0xCCA8, 0xAC00, 0xC131, 0xBD84], [0xBCF4, 0xC870, 0xC131, 0xBD84], [0xAE30, 0xC900],
      [0xBD84, 0xB7C9], [0xD22C, 0xC5EC, 0xB2E8, 0xC704], [0xD568, 0xB7C9], [0xC21C, 0xB3C4],
      [0xD568, 0xC720, 0xB7C9], [0xD3EC, 0xD568, 0xB7C9], [0xADDC, 0xACA9]]"

definition sec_appearance_keywords :: "ustr list" where
  "sec_appearance_keywords =
     [[0xC678, 0xD615], [0xBAA8, 0xC591], [0xC0C9, 0xC0C1], [0xC0C9, 0xAE54], [0xD770, 0xC0C9],
      [0xB178, 0xB780, 0xC0C9], [0xAC01, 0xC778], [0xD45C, 0xC2DC], [0xB9C8, 0xD06C],
      [0xC6D0, 0xD615], [0xD0C0, 0xC6D0, 0xD615], [0xC815, 0xC0AC, 0xAC01, 0xD615],
      [0xC9C1, 0xC0AC, 0xAC01, 0xD615], [0xBB34, 0xC0C9], [0xD22C, 0xBA85],
      [0xBD88, 0xD22C, 0xBA85], [0xC678, 0xAD00], [0xD615, 0xD0DC], [0xD06C, 0xAE30],
      [0xBB34, 0xAC8C], [0xB450, 0xAED8], [0xC9C0, 0xB984], [0xAE38, 0xC774], [0xD3ED],
      [0xC131, 0xC0C1]]"

definition sec_efficacy_keywords :: "ustr list" where
  "sec_efficacy_keywords =
     [[0xD6A8, 0xB2A5], [0xD6A8, 0xACFC], [0xC791, 0xC6A9], [0xC57D, 0xB9AC, 0xC791, 0xC6A9],
      [0xCE58, 0xB8CC, 0xD6A8, 0xACFC], [0xCE58, 0xB8CC, 0xC791, 0xC6A9], [0xC57D, 0xD6A8],
      [0xD6A8, 0xACFC, 0xC131], [0xCE58, 0xB8CC], [0xAC1C, 0xC120], [0xC644, 0xD654],
      [0xD574, 0xC5F4], [0xC9C4, 0xD1B5], [0xC18C, 0xC5FC], [0xD56D, 0xC5FC, 0xC99D],
      [0xD56D, 0xC0DD], [0xD56D, 0xADE0], [0xD56D, 0xBC14, 0xC774, 0xB7EC, 0xC2A4],
      [0xD56D, 0xC554], [0xD56D, 0xACE0, 0xD608, 0xC555], [0xD56D, 0xB2F9, 0xB1E8],
      [0xD56D, 0xD608, 0xC804]]"

definition sec_dosage_keywords :: "ustr list" where
  "sec_dosage_keywords =
     [[0xC6A9, 0xBC95], [0xC6A9, 0xB7C9], [0xD22C, 0xC5EC], [0xBCF5, 0xC6A9],
      [0xD22C, 0xC5EC, 0xB7C9], [0xBCF5, 0xC6A9, 0xB7C9], [0xD22C, 0xC5EC, 0xBC29, 0xBC95],
      [0xBCF5, 0xC6A9, 0xBC29, 0xBC95], [0xD22C, 0xC5EC, 0xAC04, 0xACA9],
      [0xBCF5, 0xC6A9, 0xAC04, 0xACA9], [0xD22C, 0xC5EC, 0xAE30, 0xAC04],
      [0xBCF5, 0xC6A9, 0xAE30, 0xAC04], [0xC801, 0xC751, 0xC99D],
      [0xD22C, 0xC5EC, 0xACBD, 0xB85C], [0xBCF5, 0xC6A9, 0xACBD, 0xB85C], [0xACBD, 0xAD6C],
      [0xC8FC, 0xC0AC], [0xC810, 0xC801], [0xB3C4, 0xD3EC], [0xD761, 0xC785]]"

definition sec_precautions_keywords :: "ustr list" where
  "sec_precautions_keywords =
     [[0xC8FC, 0xC758, 0xC0AC, 0xD56D], [0xACBD, 0xACE0], [0xAE08, 0xAE30], [0xC8FC, 0xC758],
      [0xC774, 0xC0C1, 0xBC18, 0xC751], [0xBD80, 0xC791, 0xC6A9],
      [0xBD80, 0xC815, 0xBC18, 0xC751], [0xC54C, 0xB808, 0xB974, 0xAE30],
      [0xACFC, 0xBBFC, 0xBC18, 0xC751], [0xC911, 0xB3C5], [0xC911, 0xB3C5, 0xC131],
      [0xC758, 0xC874, 0xC131], [0xC2B5, 0xAD00, 0xC131], [0xB0B4, 0xC131],
      [0xB0B4, 0xC57D, 0xC131], [0xB0B4, 0xC131, 0xBC1C, 0xC0DD],
      [0xB0B4, 0xC57D, 0xC131, 0xBC1C, 0xC0DD], [0xC8FC, 0xC758, 0xD658, 0xC790],
      [0xC8FC, 0xC758, 0xD544, 0xC694], [0xC8FC, 0xC758, 0xB300, 0xC0C1]]"

definition sec_interactions_keywords :: "ustr list" where
  "sec_interactions_keywords =
     [[0xC0C1, 0xD638, 0xC791, 0xC6A9], [0xC57D, 0xBB3C, 0xC0C1, 0xD638, 0xC791, 0xC6A9],
      [0xC57D, 0xBB3C, 0xAC04, 0xC0C1, 0xD638, 0xC791, 0xC6A9], [0xC57D, 0xBB3C, 0xC870, 0xD569],
      [0xC57D, 0xBB3C, 0xBCD1, 0xC6A9], [0xC57D, 0xBB3C, 0xBC30, 0xD569],
      [0xC57D, 0xBB3C, 0xACB0, 0xD569], [0xC57D, 0xBB3C, 0xBC18, 0xC751],
      [0xC57D, 0xBB3C, 0xD6A8, 0xACFC], [0xC57D, 0xBB3C, 0xC601, 0xD5A5],
      [0xC57D, 0xBB3C, 0xC791, 0xC6A9], [0xC57D, 0xBB3C, 0xBC18, 0xC751, 0xC131],
      [0xC57D, 0xBB3C, 0xBBFC, 0xAC10, 0xC131]]"

definition sec_pregnancy_keywords :: "ustr list" where
  "sec_pregnancy_keywords =
     [[0xC784, 0xBD80], [0xC784, 0xC2E0, 0xBD80], [0xC784, 0xC2E0], [0xC218, 0xC720, 0xBD80],
      [0xC218, 0xC720], [0xD0DC, 0xC544], [0xD0DC, 0xC544, 0xAE30],
      [0xD0DC, 0xC544, 0xBC1C, 0xB2EC], [0xD0DC, 0xC544, 0xC601, 0xD5A5],
      [0xD0DC, 0xC544, 0xB3C5, 0xC131], [0xD0DC, 0xC544, 0xAE30, 0xD615],
      [0xD0DC, 0xC544, 0xAE30, 0xD615, 0xC131], [0xD0DC, 0xC544, 0xBC1C, 0xB2EC, 0xC7A5, 0xC560],
      [0xD0DC, 0xC544, 0xBC1C, 0xB2EC, 0xC9C0, 0xC5F0],
      [0xD0DC, 0xC544, 0xBC1C, 0xB2EC, 0xC601, 0xD5A5]]"

definition sec_elderly_keywords :: "ustr list" where
  "sec_elderly_keywords =
     [[0xACE0, 0xB839, 0xC790], [0xB178, 0xC778], [0xB178, 0xB144], [0xACE0, 0xB839],
      [0xB178, 0xD654], [0xB178, 0xC778, 0xC131], [0xB178, 0xB144, 0xC131],
      [0xACE0, 0xB839, 0xC790, 0xC6A9], [0xB178, 0xC778, 0xC6A9], [0xB178, 0xB144, 0xC6A9],
      [0xACE0, 0xB839, 0xC790, 0xC801, 0xD569], [0xB178, 0xC778, 0xC801, 0xD569],
      [0xB178, 0xB144, 0xC801, 0xD569]]"

definition sec_application_keywords :: "ustr list" where
  "sec_application_keywords =
     [[0xC801, 0xC6A9], [0xC801, 0xC6A9, 0xC2DC], [0xC801, 0xC6A9, 0xC2DC, 0xC8FC, 0xC758],
      [0xC801, 0xC6A9, 0xC8FC, 0xC758], [0xC801, 0xC6A9, 0xC2DC, 0xC8FC, 0xC758, 0xC0AC, 0xD56D],
      [0xC801, 0xC6A9, 0xC8FC, 0xC758, 0xC0AC, 0xD56D],
      [0xC801, 0xC6A9, 0xC2DC, 0xC8FC, 0xC758, 0xC810], [0xC801, 0xC6A9, 0xC8FC, 0xC758, 0xC810],
      [0xC801, 0xC6A9, 0xC2DC, 0xC8FC, 0xC758, 0xD560, 0xC810],
      [0xC801, 0xC6A9, 0xC8FC, 0xC758, 0xD560, 0xC810]]"

definition sec_storage_keywords :: "ustr list" where
  "sec_storage_keywords =
     [[0xBCF4, 0xAD00], [0xBCF4, 0xAD00, 0xC870, 0xAC74], [0xBCF4, 0xAD00, 0xBC29, 0xBC95],
      [0xBCF4, 0xAD00, 0xC628, 0xB3C4], [0xBCF4, 0xAD00, 0xC2B5, 0xB3C4],
      [0xBCF4, 0xAD00, 0xC7A5, 0xC18C], [0xBCF4, 0xAD00, 0xAE30, 0xAC04],
      [0xBCF4, 0xAD00, 0xC8FC, 0xC758], [0xBCF4, 0xAD00, 0xC8FC, 0xC758, 0xC0AC, 0xD56D],
      [0xBCF4, 0xAD00, 0xC8FC, 0xC758, 0xC810], [0xBCF4, 0xAD00, 0xC8FC, 0xC758, 0xD560, 0xC810],
      [0xCDE8, 0xAE09], [0xCDE8, 0xAE09, 0xBC29, 0xBC95], [0xCDE8, 0xAE09, 0xC8FC, 0xC758],
      [0xCDE8, 0xAE09, 0xC8FC, 0xC758, 0xC0AC, 0xD56D], [0xCDE8, 0xAE09, 0xC8FC, 0xC758, 0xC810],
      [0xCDE8, 0xAE09, 0xC8FC, 0xC758, 0xD560, 0xC810], [0xD3EC, 0xC7A5],
      [0xD3EC, 0xC7A5, 0xB2E8, 0xC704], [0xD3EC, 0xC7A5, 0xBC29, 0xBC95],
      [0xD3EC, 0xC7A5, 0xC8FC, 0xC758], [0xD3EC, 0xC7A5, 0xC8FC, 0xC758, 0xC0AC, 0xD56D]]"

definition sec_manufacturer_keywords :: "ustr list" where
  "sec_manufacturer_keywords =
     [[0xC81C, 0xC870, 0xC0AC], [0xC81C, 0xC870, 0xC5C5, 0xCCB4],
      [0xC81C, 0xC870, 0xD68C, 0xC0AC], [0xC81C, 0xC870, 0xAE30, 0xC5C5],
      [0xC81C, 0xC870, 0xACF5, 0xC7A5], [0xC81C, 0xC870, 0xC2DC, 0xC124],
      [0xC81C, 0xC870, 0xC124, 0xBE44], [0xC81C, 0xC870, 0xB77C, 0xC778],
      [0xC81C, 0xC870, 0xACF5, 0xC815], [0xC81C, 0xC870, 0xACFC, 0xC815],
      [0xC81C, 0xC870, 0xBC29, 0xBC95], [0xC81C, 0xC870, 0xAE30, 0xC220],
      [0xC81C, 0xC870, 0xD488, 0xC9C8], [0xC81C, 0xC870, 0xAD00, 0xB9AC],
      [0xD310, 0xB9E4, 0xC0AC], [0xD310, 0xB9E4, 0xC5C5, 0xCCB4],
      [0xD310, 0xB9E4, 0xD68C, 0xC0AC], [0xD310, 0xB9E4, 0xAE30, 0xC5C5],
      [0xD310, 0xB9E4, 0xC810], [0xD310, 0xB9E4, 0xC18C], [0xD310, 0xB9E4, 0xCC98],
      [0xD310, 0xB9E4, 0xB9DD], [0xD310, 0xB9E4, 0xB124, 0xD2B8, 0xC6CC, 0xD06C],
      [0xACF5, 0xC7A5], [0xACF5, 0xC7A5, 0xC8FC, 0xC18C], [0xACF5, 0xC7A5, 0xC704, 0xCE58],
      [0xACF5, 0xC7A5, 0xC18C, 0xC7AC, 0xC9C0], [0xACF5, 0xC7A5, 0xC18C, 0xC7AC],
      [0xC18C, 0xBE44, 0xC790, 0xC0C1, 0xB2F4, 0xC2E4], [0xACE0, 0xAC1D, 0xC0C1, 0xB2F4, 0xC2E4],
      [0xC0C1, 0xB2F4, 0xC2E4], [0xC0C1, 0xB2F4, 0xC18C], [0xC0C1, 0xB2F4, 0xC13C, 0xD130]]"

definition section_keyword_sets :: "(ustr \<times> ustr list \<times> pyfloat) list" where
  "section_keyword_sets =
     [(sec_ingredients, sec_ingredients_keywords, f_1_2),
      (sec_appearance, sec_appearance_keywords, f_1_0),
      (sec_efficacy, sec_efficacy_keywords, f_1_1),
      (sec_dosage, sec_dosage_keywords, f_1_1),
      (sec_precautions, sec_precautions_keywords, f_1_0),
      (sec_interactions, sec_interactions_keywords, f_0_9),
      (sec_pregnancy, sec_pregnancy_keywords, f_0_9),
      (sec_elderly, sec_elderly_keywords, f_0_8),
      (sec_application, sec_application_keywords, f_0_8),
      (sec_storage, sec_storage_keywords, f_1_0),
      (sec_manufacturer, sec_manufacturer_keywords, f_0_7)]"

definition section_names :: "ustr list" where
  "section_names = map fst section_keyword_sets"

text \<open>The result dictionary starts with an empty list under each of the eleven names.\<close>

definition initial_section_keywords :: "(ustr \<times> ustr list) list" where
  "initial_section_keywords =
     [(sec_ingredients, []), (sec_appearance, []), (sec_efficacy, []), (sec_dosage, []),
      (sec_precautions, []), (sec_interactions, []), (sec_pregnancy, []), (sec_elderly, []),
      (sec_application, []), (sec_storage, []), (sec_manufacturer, [])]"

text \<open>
  The direct score adds \<open>1.0\<close> for each configured keyword that is part of the lowered
  candidate or has the lowered candidate as a part.
\<close>

definition direct_match_score :: "ustr \<Rightarrow> ustr list \<Rightarrow> pyfloat" where
  "direct_match_score keyword_lower section_keywords_list =
     foldl (\<lambda>score section_keyword.
              if is_in (py_lower section_keyword) keyword_lower
                 \<or> is_in keyword_lower (py_lower section_keyword)
              then fadd score f_1_0 else score)
           f_0_0 section_keywords_list"

text \<open>
  The partial score adds \<open>0.5\<close> for each configured keyword one of whose
  white-space-separated tokens is part of the lowered candidate.
\<close>

definition partial_match_score :: "ustr \<Rightarrow> ustr list \<Rightarrow> pyfloat" where
  "partial_match_score keyword_lower section_keywords_list =
     foldl (\<lambda>score section_keyword.
              if list_ex (\<lambda>token. is_in token keyword_lower) (py_split (py_lower section_keyword))
              then fadd score f_0_5 else score)
           f_0_0 section_keywords_list"

text \<open>
  The bonus for a candidate with a digit is given to the section whose name equals the
  string literal of the source, which reads "ingredient information".
\<close>

definition bonus_section_name :: ustr where
  "bonus_section_name = [0xC131, 0xBD84, 0x20, 0xC815, 0xBCF4]"

definition number_bonus :: "ustr \<Rightarrow> ustr \<Rightarrow> pyfloat" where
  "number_bonus keyword section =
     (if has_digit keyword \<and> section = bonus_section_name then f_0_3 else f_0_0)"

definition total_score :: "ustr \<Rightarrow> ustr \<Rightarrow> ustr \<times> ustr list \<times> pyfloat \<Rightarrow> pyfloat" where
  "total_score keyword keyword_lower config =
     (case config of (section, section_keywords_list, weight) \<Rightarrow>
        fmul (fadd (fadd (direct_match_score keyword_lower section_keywords_list)
                         (partial_match_score keyword_lower section_keywords_list))
                   (number_bonus keyword section))
             weight)"

text \<open>
  The loop over the sections keeps the best section so far (\<open>None\<close> at the start) and its
  score (\<open>0.0\<close> at the start); a section replaces it only with a strictly greater score.
\<close>

fun best_section_loop ::
  "ustr \<Rightarrow> ustr \<Rightarrow> (ustr \<times> ustr list \<times> pyfloat) list \<Rightarrow> ustr option \<times> pyfloat
     \<Rightarrow> ustr option \<times> pyfloat"
where
  "best_section_loop keyword keyword_lower [] best = best"
| "best_section_loop keyword keyword_lower (config # rest) (best_section, best_score) =
     (if fless best_score (total_score keyword keyword_lower config)
      then best_section_loop keyword keyword_lower rest
             (Some (fst config), total_score keyword keyword_lower config)
      else best_section_loop keyword keyword_lower rest (best_section, best_score))"

definition best_section_and_score :: "ustr \<Rightarrow> ustr option \<times> pyfloat" where
  "best_section_and_score keyword =
     best_section_loop keyword (py_lower keyword) section_keyword_sets (None, f_0_0)"

text \<open>The words of the fallback rules: tablet, capsule, injection, dosage form; colour,
  shape, imprint; container, packaging.\<close>

definition fallback_form_words :: "ustr list" where
  "fallback_form_words =
     [[0xC815], [0xCEA1, 0xC290], [0xC8FC, 0xC0AC, 0xC81C], [0xC81C, 0xD615]]"

definition fallback_look_words :: "ustr list" where
  "fallback_look_words = [[0xC0C9, 0xC0C1], [0xBAA8, 0xC591], [0xAC01, 0xC778]]"

definition fallback_container_words :: "ustr list" where
  "fallback_container_words = [[0xC6A9, 0xAE30], [0xD3EC, 0xC7A5]]"

definition fallback_section :: "ustr \<Rightarrow> ustr" where
  "fallback_section keyword =
     (let keyword_lower = py_lower keyword
      in if has_digit keyword then sec_ingredients
         else if list_ex (\<lambda>word. is_in word keyword_lower) fallback_form_words
           then sec_appearance
         else if list_ex (\<lambda>word. is_in word keyword_lower) fallback_look_words
           then sec_appearance
         else if list_ex (\<lambda>word. is_in word keyword_lower) fallback_container_words
           then sec_storage
         else sec_ingredients)"

text \<open>
  The section one keyword is appended to. The test \<^verbatim>\<open>best_section and best_score >= 0.5\<close>
  is false for \<open>None\<close> and for an empty name.
\<close>

definition assigned_section :: "ustr \<Rightarrow> ustr" where
  "assigned_section keyword =
     (case best_section_and_score keyword of
        (None, best_score) \<Rightarrow> fallback_section keyword
      | (Some best_section, best_score) \<Rightarrow>
          if best_section \<noteq> [] \<and> fle f_0_5 best_score then best_section
          else fallback_section keyword)"

text \<open>
  \<^verbatim>\<open>d[key].append(v)\<close> on a dictionary of lists, kept in insertion order. \<open>None\<close> is the
  \<^verbatim>\<open>KeyError\<close> of a missing key.
\<close>

fun dict_append :: "(ustr \<times> ustr list) list \<Rightarrow> ustr \<Rightarrow> ustr \<Rightarrow> (ustr \<times> ustr list) list option" where
  "dict_append [] key v = None"
| "dict_append ((k, vs) # d) key v =
     (if k = key then Some ((k, vs @ [v]) # d)
      else map_option (\<lambda>d'. (k, vs) # d') (dict_append d key v))"

fun classify_loop ::
  "ustr list \<Rightarrow> (ustr \<times> ustr list) list \<Rightarrow> (ustr \<times> ustr list) list option" where
  "classify_loop [] section_keywords = Some section_keywords"
| "classify_loop (keyword # keywords) section_keywords =
     (case dict_append section_keywords (assigned_section keyword) keyword of
        None \<Rightarrow> None
      | Some section_keywords' \<Rightarrow> classify_loop keywords section_keywords')"

definition classify_keywords_by_section :: "ustr list \<Rightarrow> (ustr \<times> ustr list) list option" where
  "classify_keywords_by_section keywords = classify_loop keywords initial_section_keywords"

section \<open>The classification as the specification describes it\<close>

text \<open>
  The scores of a keyword for the eleven sections, in configuration order, and the best
  score: the greatest of \<open>0.0\<close> and these scores.
\<close>

definition section_scores :: "ustr \<Rightarrow> (ustr \<times> pyfloat) list" where
  "section_scores keyword =
     map (\<lambda>config. (fst config, total_score keyword (py_lower keyword) config)) section_keyword_sets"

definition highest_score :: "ustr \<Rightarrow> pyfloat" where
  "highest_score keyword = foldl fmax f_0_0 (map snd (section_scores keyword))"

text \<open>The best-scoring section: the first section, in configuration order, with the best score.\<close>

definition first_best_section :: "ustr \<Rightarrow> ustr option" where
  "first_best_section keyword =
     map_option fst (find (\<lambda>(section, score). fle (highest_score keyword) score) (section_scores keyword))"

text \<open>
  The fallback chain in the words of the specification: a digit leads to the ingredient
  section, a form-related substring (tablet, capsule, injection, dosage form, colour,
  shape, imprint) to the appearance section, a container-related substring (container,
  packaging) to the storage section, and anything else to the default section, which is
  the ingredient section.
\<close>

definition form_related_words :: "ustr list" where
  "form_related_words =
     [[0xC815], [0xCEA1, 0xC290], [0xC8FC, 0xC0AC, 0xC81C], [0xC81C, 0xD615], [0xC0C9, 0xC0C1],
      [0xBAA8, 0xC591], [0xAC01, 0xC778]]"

definition described_fallback_section :: "ustr \<Rightarrow> ustr" where
  "described_fallback_section keyword =
     (if has_digit keyword then sec_ingredients
      else if list_ex (\<lambda>word. is_in word (py_lower keyword)) form_related_words then sec_appearance
      else if is_in [0xC6A9, 0xAE30] (py_lower keyword) \<or> is_in [0xD3EC, 0xC7A5] (py_lower keyword)
        then sec_storage
      else sec_ingredients)"

section \<open>The inputs of the scenarios\<close>

text \<open>The keywords semaglutide, \<open>1mg\<close>, glass and bottle, and the word for injection.\<close>

definition kw_semaglutide :: ustr where
  "kw_semaglutide = [0xC138, 0xB9C8, 0xAE00, 0xB8E8, 0xD0C0, 0xC774, 0xB4DC]"

definition kw_1mg :: ustr where
  "kw_1mg = [0x31, 0x6D, 0x67]"

definition kw_glass :: ustr where
  "kw_glass = [0xC720, 0xB9AC]"

definition kw_bottle :: ustr where
  "kw_bottle = [0xBCD1]"

definition kw_injection :: ustr where
  "kw_injection = [0xC8FC, 0xC0AC, 0xC81C]"

section \<open>Regular expressions\<close>

text \<open>
  The patterns of the program are built from literal strings, character classes with a
  greedy repetition, an optional part, sequence and alternation. \<open>rmatch r s\<close> lists
  what is left of \<open>s\<close> after each way of matching \<open>r\<close> at the start of \<open>s\<close>, in
  the order in which the backtracking matcher of \<^verbatim>\<open>re\<close> tries them: the head of the list
  is the match that \<^verbatim>\<open>re\<close> reports. All patterns are compiled with \<^verbatim>\<open>re.IGNORECASE\<close>.

  Under that flag a pattern letter matches a text character with the same simple
  lower-case form; in addition \<open>i\<close> matches the dotless \<open>0x131\<close> and \<open>s\<close> the long s
  \<open>0x17F\<close>. The pattern characters of this program are ASCII or Hangul, and the code points
  with an ASCII simple lower-case form other than themselves are \<open>A\<close> to \<open>Z\<close>,
  \<open>0x130\<close> and \<open>0x212A\<close>.
\<close>

definition simple_lower :: "int \<Rightarrow> int" where
  "simple_lower c =
     (if 0x41 \<le> c \<and> c \<le> 0x5A then c + 0x20
      else if c = 0x130 then 0x69
      else if c = 0x212A then 0x6B
      else c)"

definition char_matches_ignorecase :: "int \<Rightarrow> int \<Rightarrow> bool" where
  "char_matches_ignorecase p c =
     (simple_lower c = simple_lower p
      \<or> (simple_lower p = 0x69 \<and> simple_lower c = 0x131)
      \<or> (simple_lower p = 0x73 \<and> simple_lower c = 0x17F))"

text \<open>\<open>match_literal p s\<close>: the rest of \<open>s\<close> after the literal \<open>p\<close>, if \<open>s\<close> starts with it.\<close>

fun match_literal :: "ustr \<Rightarrow> ustr \<Rightarrow> ustr option" where
  "match_literal [] s = Some s"
| "match_literal (p # ps) [] = None"
| "match_literal (p # ps) (c # cs) =
     (if char_matches_ignorecase p c then match_literal ps cs else None)"

datatype regex =
    Lit ustr
  | OneOf "ustr list"
  | Plus "int \<Rightarrow> bool"
  | Star "int \<Rightarrow> bool"
  | Opt regex
  | Seq regex regex

text \<open>The suffixes of \<open>s\<close> after \<open>n\<close>, \<open>n - 1\<close>, ..., \<open>lo\<close> of its characters.\<close>

fun suffixes_down :: "ustr \<Rightarrow> nat \<Rightarrow> nat \<Rightarrow> ustr list" where
  "suffixes_down s lo 0 = (if lo = 0 then [s] else [])"
| "suffixes_down s lo (Suc n) =
     (if lo \<le> Suc n then drop (Suc n) s # suffixes_down s lo n else [])"

definition literal_rests :: "ustr \<Rightarrow> ustr \<Rightarrow> ustr list" where
  "literal_rests p s = (case match_literal p s of None \<Rightarrow> [] | Some rest \<Rightarrow> [rest])"

fun rmatch :: "regex \<Rightarrow> ustr \<Rightarrow> ustr list" where
  "rmatch (Lit p) s = literal_rests p s"
| "rmatch (OneOf ps) s = concat (map (\<lambda>p. literal_rests p s) ps)"
| "rmatch (Plus cls) s = suffixes_down s 1 (length (takeWhile cls s))"
| "rmatch (Star cls) s = suffixes_down s 0 (length (takeWhile cls s))"
| "rmatch (Opt r) s = rmatch r s @ [s]"
| "rmatch (Seq r1 r2) s = concat (map (rmatch r2) (rmatch r1 s))"

text \<open>
  A matcher gives, for a match at the start of its argument, the text of the first
  group and what is left of the argument.
\<close>

type_synonym matcher = "ustr \<Rightarrow> (ustr \<times> ustr) option"

definition regex_matcher :: "regex \<Rightarrow> matcher" where
  "regex_matcher r s = (case rmatch r s of [] \<Rightarrow> None | rest # _ \<Rightarrow> Some ([], rest))"

text \<open>
  The scan of \<^verbatim>\<open>re.finditer\<close>, \<^verbatim>\<open>re.findall\<close> and \<^verbatim>\<open>re.sub\<close>: from left to right, the
  first position with a match, then on from the end of that match. The result lists, for
  each match, the text skipped before it, the matched text and the text of the group,
  and ends with the text after the last match. No pattern of the program matches the
  empty string; a matcher that leaves its whole argument is treated as having no match.
\<close>

function re_scan :: "matcher \<Rightarrow> ustr \<Rightarrow> ustr \<Rightarrow> (ustr \<times> ustr \<times> ustr) list \<times> ustr" where
  "re_scan m skipped [] = ([], skipped)"
| "re_scan m skipped (c # cs) =
     (case m (c # cs) of
        None \<Rightarrow> re_scan m (skipped @ [c]) cs
      | Some (grp, rest) \<Rightarrow>
          if length rest \<le> length cs
          then (case re_scan m [] rest of
                  (found, tail) \<Rightarrow>
                    ((skipped, take (Suc (length cs) - length rest) (c # cs), grp) # found, tail))
          else re_scan m (skipped @ [c]) cs)"
  by pat_completeness auto
termination
  by (relation "measure (\<lambda>(m, skipped, s). length s)") auto

definition re_finditer :: "matcher \<Rightarrow> ustr \<Rightarrow> ustr list" where
  "re_finditer m s = map (\<lambda>(skipped, matched, grp). matched) (fst (re_scan m [] s))"

definition re_findall_group :: "matcher \<Rightarrow> ustr \<Rightarrow> ustr list" where
  "re_findall_group m s = map (\<lambda>(skipped, matched, grp). grp) (fst (re_scan m [] s))"

definition re_sub_empty :: "matcher \<Rightarrow> ustr \<Rightarrow> ustr" where
  "re_sub_empty m s =
     (case re_scan m [] s of
        (found, tail) \<Rightarrow> concat (map (\<lambda>(skipped, matched, grp). skipped) found) @ tail)"

text \<open>
  \<^verbatim>\<open>re.split\<close> on one or more characters of a class: the pieces between the maximal runs
  of separators, empty pieces at the ends included.
\<close>

fun split_on :: "(int \<Rightarrow> bool) \<Rightarrow> bool \<Rightarrow> ustr \<Rightarrow> ustr \<Rightarrow> ustr list" where
  "split_on sep in_run piece [] = [piece]"
| "split_on sep in_run piece (c # cs) =
     (if sep c
      then (if in_run then split_on sep True piece cs else piece # split_on sep True [] cs)
      else split_on sep False (piece @ [c]) cs)"

definition re_split :: "(int \<Rightarrow> bool) \<Rightarrow> ustr \<Rightarrow> ustr list" where
  "re_split sep s = split_on sep False [] s"

text \<open>
  \<^verbatim>\<open>s.replace(old, new)\<close>: every occurrence of \<open>old\<close>, from left to right without
  overlap. The counter is the number of characters of an occurrence still to be skipped.
  An empty \<open>old\<close> puts \<open>new\<close> before every character and at the end.
\<close>

fun replace_scan :: "ustr \<Rightarrow> ustr \<Rightarrow> nat \<Rightarrow> ustr \<Rightarrow> ustr" where
  "replace_scan old new n [] = []"
| "replace_scan old new (Suc n) (c # cs) = replace_scan old new n cs"
| "replace_scan old new 0 (c # cs) =
     (if startswith (c # cs) old then new @ replace_scan old new (length old - 1) cs
      else c # replace_scan old new 0 cs)"

definition py_replace :: "ustr \<Rightarrow> ustr \<Rightarrow> ustr \<Rightarrow> ustr" where
  "py_replace s old new =
     (if old = [] then new @ concat (map (\<lambda>c. c # new) s) else replace_scan old new 0 s)"

text \<open>The decimal digits of a natural number, as \<^verbatim>\<open>str\<close> of an \<^verbatim>\<open>int\<close> gives them.\<close>

function decimal_str :: "nat \<Rightarrow> ustr" where
  "decimal_str n =
     (if n < 10 then [0x30 + int n] else decimal_str (n div 10) @ [0x30 + int (n mod 10)])"
  by pat_completeness auto
termination
  by (relation "measure id") auto

section \<open>The tokenizer of text_processor.py\<close>

text \<open>
  The number-unit pattern: a run of digits, an optional dot, digits, white space and, as
  group 1, one of the units mg, g, ml, mcg, IU and four Korean words (unit, tablet,
  capsule, injection), tried in this order.
\<close>

definition number_prefix :: regex where
  "number_prefix = Seq (Plus is_digit) (Seq (Opt (Lit [0x2E])) (Seq (Star is_digit) (Star is_space)))"

definition unit_words :: "ustr list" where
  "unit_words =
     [[0x6D, 0x67], [0x67], [0x6D, 0x6C], [0x6D, 0x63, 0x67], [0x49, 0x55], [0xB2E8, 0xC704],
      [0xC815], [0xCEA1, 0xC290], [0xC8FC, 0xC0AC, 0xC81C]]"

text \<open>The first way, in the order of the matcher, to match a prefix and then a unit.\<close>

fun first_unit_match :: "ustr list \<Rightarrow> (ustr \<times> ustr) option" where
  "first_unit_match [] = None"
| "first_unit_match (after_number # others) =
     (case rmatch (OneOf unit_words) after_number of
        [] \<Rightarrow> first_unit_match others
      | rest # _ \<Rightarrow> Some (take (length after_number - length rest) after_number, rest))"

definition number_unit_matcher :: matcher where
  "number_unit_matcher s = first_unit_match (rmatch number_prefix s)"

definition protected_patterns :: "matcher list" where
  "protected_patterns =
     [number_unit_matcher,
      regex_matcher (Seq (Plus is_digit) (Lit [0x25])),
      regex_matcher (OneOf [[0x55, 0x53, 0x50], [0x45, 0x50], [0x4A, 0x50]]),
      regex_matcher (Lit [0xD544, 0xB984, 0xCF54, 0xD305, 0xC815]),
      regex_matcher (OneOf
        [[0xC544, 0xC138, 0xD2B8, 0xC544, 0xBBF8, 0xB178, 0xD39C],
         [0xC774, 0xBD80, 0xD504, 0xB85C, 0xD39C], [0xC544, 0xC2A4, 0xD53C, 0xB9B0],
         [0xC138, 0xB9C8, 0xAE00, 0xB8E8, 0xD0C0, 0xC774, 0xB4DC],
         [0xBA54, 0xD2B8, 0xD3EC, 0xB974, 0xBBFC],
         [0xAE00, 0xB9AC, 0xBA54, 0xD53C, 0xB9AC, 0xB4DC], [0xD30C, 0xC138, 0xD0C0, 0xBBFC]])]"

definition protected_prefix :: ustr where
  "protected_prefix = [0x5F, 0x5F, 0x50, 0x52, 0x4F, 0x54, 0x45, 0x43, 0x54, 0x45, 0x44, 0x5F]"

text \<open>The marker of pattern \<open>i\<close> when \<open>n\<close> tokens are protected already.\<close>

definition marker :: "nat \<Rightarrow> nat \<Rightarrow> ustr" where
  "marker i n = protected_prefix @ decimal_str i @ [0x5F] @ decimal_str n @ [0x5F, 0x5F]"

text \<open>
  The first loop: for each pattern in turn and each of its matches in the text, a new
  marker is bound to the matched text. The markers are pairwise different, so the
  dictionary \<^verbatim>\<open>token_to_marker\<close> is the list of these bindings in insertion order;
  \<^verbatim>\<open>protected_tokens\<close> is needed for its length only.
\<close>

fun bind_matches :: "nat \<Rightarrow> ustr list \<Rightarrow> (ustr \<times> ustr) list \<Rightarrow> (ustr \<times> ustr) list" where
  "bind_matches i [] token_to_marker = token_to_marker"
| "bind_matches i (matched # matches) token_to_marker =
     bind_matches i matches (token_to_marker @ [(marker i (length token_to_marker), matched)])"

fun protect_loop ::
  "nat \<Rightarrow> matcher list \<Rightarrow> ustr \<Rightarrow> (ustr \<times> ustr) list \<Rightarrow> (ustr \<times> ustr) list" where
  "protect_loop i [] text token_to_marker = token_to_marker"
| "protect_loop i (pattern # patterns) text token_to_marker =
     protect_loop (Suc i) patterns text (bind_matches i (re_finditer pattern text) token_to_marker)"

text \<open>The second loop replaces each protected text by its marker, in insertion order.\<close>

fun replace_loop :: "(ustr \<times> ustr) list \<Rightarrow> ustr \<Rightarrow> ustr" where
  "replace_loop [] text = text"
| "replace_loop ((mark, token) # bindings) text = replace_loop bindings (py_replace text token mark)"

definition is_separator :: "int \<Rightarrow> bool" where
  "is_separator c =
     (is_space c \<or> c \<in> set [0x2E, 0x2C, 0x3B, 0x3A, 0x21, 0x3F, 0x28, 0x29, 0x5B, 0x5D, 0x7B, 0x7D,
                               0x22, 0x27])"

definition clean_tokens :: "ustr list \<Rightarrow> ustr list" where
  "clean_tokens tokens = filter (\<lambda>token. token \<noteq> [] \<and> 1 \<le> length token) (map py_strip tokens)"

text \<open>A cleaned token that starts like a marker and is a marker is replaced by its text.\<close>

definition restore_token :: "(ustr \<times> ustr) list \<Rightarrow> ustr \<Rightarrow> ustr" where
  "restore_token token_to_marker token =
     (if startswith token protected_prefix
      then (case map_of token_to_marker token of Some original \<Rightarrow> original | None \<Rightarrow> token)
      else token)"

definition split_into_tokens :: "ustr \<Rightarrow> ustr list" where
  "split_into_tokens text =
     (case protect_loop 0 protected_patterns text [] of
        token_to_marker \<Rightarrow>
          map (restore_token token_to_marker)
              (clean_tokens (re_split is_separator (replace_loop token_to_marker text))))"

section \<open>The product-name tokenizer of keyword_processor.py\<close>

definition tokenize_product_name :: "ustr \<Rightarrow> ustr list" where
  "tokenize_product_name product_name =
     (if product_name = [] then []
      else filter (\<lambda>token. token \<noteq> [])
             (map py_strip
                (re_split is_space (py_strip (re_sub_empty number_unit_matcher product_name))
                 @ re_findall_group number_unit_matcher product_name)))"

section \<open>The keyword ranker of text_processor.py\<close>

datatype error = OverflowError | KeyError

definition fabs :: "pyfloat \<Rightarrow> pyfloat" where
  "fabs x = (case x of Dyadic m e \<Rightarrow> Dyadic \<bar>m\<bar> e)"

text \<open>
  The conversion of an \<^verbatim>\<open>int\<close> in a product with a float: the nearest double, and
  \<^verbatim>\<open>OverflowError\<close> when that is \<open>2\<^sup>1\<^sup>0\<^sup>2\<^sup>4\<close> or more in absolute value.
\<close>

definition float_of_int :: "int \<Rightarrow> error + pyfloat" where
  "float_of_int n =
     (if fle (Dyadic 1 1024) (fabs (round53 n 0)) then Inl OverflowError else Inr (round53 n 0))"

definition frequency_score :: "int \<Rightarrow> error + pyfloat" where
  "frequency_score frequency =
     (case float_of_int frequency of
        Inl e \<Rightarrow> Inl e
      | Inr x \<Rightarrow> Inr (fmin (fmul x f_0_4) f_0_4))"

text \<open>
  \<^verbatim>\<open>difflib\<close> is not part of the program: \<open>ratio a b\<close> stands for
  \<^verbatim>\<open>SequenceMatcher(None, a.lower(), b.lower()).ratio()\<close>, a float between 0 and 1.
\<close>

definition similarity_score :: "(ustr \<Rightarrow> ustr \<Rightarrow> pyfloat) \<Rightarrow> ustr \<Rightarrow> ustr list \<Rightarrow> pyfloat" where
  "similarity_score ratio keyword product_tokens =
     fmul (foldl (\<lambda>best token. fmax best (ratio keyword token)) f_0_0 product_tokens) f_0_4"

text \<open>A \<^verbatim>\<open>bool\<close> in a product with a float counts as \<open>1.0\<close> or \<open>0.0\<close>.\<close>

definition bool_float :: "bool \<Rightarrow> pyfloat" where
  "bool_float b = (if b then f_1_0 else f_0_0)"

text \<open>
  The word class of \<^verbatim>\<open>re\<close> (letters and digits of all scripts and the underscore) is a
  table of the Unicode database; it is the parameter \<open>is_word\<close>.
\<close>

definition has_special :: "(int \<Rightarrow> bool) \<Rightarrow> ustr \<Rightarrow> bool" where
  "has_special is_word s = list_ex (\<lambda>c. \<not> is_word c \<and> \<not> is_space c) s"

definition has_korean :: "ustr \<Rightarrow> bool" where
  "has_korean s = list_ex (\<lambda>c. 0xAC00 \<le> c \<and> c \<le> 0xD7A3) s"

definition has_english :: "ustr \<Rightarrow> bool" where
  "has_english s = list_ex (\<lambda>c. (0x61 \<le> c \<and> c \<le> 0x7A) \<or> (0x41 \<le> c \<and> c \<le> 0x5A)) s"

definition context_score :: "(int \<Rightarrow> bool) \<Rightarrow> ustr \<Rightarrow> pyfloat" where
  "context_score is_word keyword =
     (if 1 \<le> length keyword
      then fmul (fadd (fadd (fadd (fadd f_0_3 (fmul f_0_2 (bool_float (has_digit keyword))))
                                   (fmul f_0_2 (bool_float (has_special is_word keyword))))
                             (fmul f_0_2 (bool_float (has_korean keyword))))
                       (fmul f_0_1 (bool_float (has_english keyword))))
                f_0_2
      else f_0_0)"

text \<open>The frequency table is a dictionary from keywords to integers; a missing keyword counts 1.\<close>

definition keyword_weight ::
  "(ustr \<Rightarrow> ustr \<Rightarrow> pyfloat) \<Rightarrow> (int \<Rightarrow> bool) \<Rightarrow> ustr list \<Rightarrow> (ustr \<Rightarrow> int option) \<Rightarrow> ustr
     \<Rightarrow> error + pyfloat" where
  "keyword_weight ratio is_word product_tokens keyword_frequency keyword =
     (case frequency_score (case keyword_frequency keyword of None \<Rightarrow> 1 | Some n \<Rightarrow> n) of
        Inl e \<Rightarrow> Inl e
      | Inr fs \<Rightarrow>
          Inr (fadd (fadd fs (similarity_score ratio keyword product_tokens))
                    (context_score is_word keyword)))"

fun weights_loop ::
  "(ustr \<Rightarrow> ustr \<Rightarrow> pyfloat) \<Rightarrow> (int \<Rightarrow> bool) \<Rightarrow> ustr list \<Rightarrow> (ustr \<Rightarrow> int option) \<Rightarrow> ustr list
     \<Rightarrow> error + (ustr \<times> pyfloat) list" where
  "weights_loop ratio is_word product_tokens keyword_frequency [] = Inr []"
| "weights_loop ratio is_word product_tokens keyword_frequency (keyword # keywords) =
     (case keyword_weight ratio is_word product_tokens keyword_frequency keyword of
        Inl e \<Rightarrow> Inl e
      | Inr w \<Rightarrow>
          (case weights_loop ratio is_word product_tokens keyword_frequency keywords of
             Inl e \<Rightarrow> Inl e
           | Inr ws \<Rightarrow> Inr ((keyword, w) # ws)))"

text \<open>
  \<^verbatim>\<open>sort(key=..., reverse=True)\<close> is stable: pairs of equal weight keep their order. An
  insertion sort from the right that puts a pair before the first pair of at most its
  weight gives that list.
\<close>

fun insert_desc :: "ustr \<times> pyfloat \<Rightarrow> (ustr \<times> pyfloat) list \<Rightarrow> (ustr \<times> pyfloat) list" where
  "insert_desc x [] = [x]"
| "insert_desc x (y # ys) = (if fle (snd y) (snd x) then x # y # ys else y # insert_desc x ys)"

definition sort_desc :: "(ustr \<times> pyfloat) list \<Rightarrow> (ustr \<times> pyfloat) list" where
  "sort_desc xs = foldr insert_desc xs []"

definition calculate_keyword_weights ::
  "(ustr \<Rightarrow> ustr \<Rightarrow> pyfloat) \<Rightarrow> (int \<Rightarrow> bool) \<Rightarrow> ustr list \<Rightarrow> ustr list \<Rightarrow> (ustr \<Rightarrow> int option)
     \<Rightarrow> error + (ustr \<times> pyfloat) list" where
  "calculate_keyword_weights ratio is_word keywords product_tokens keyword_frequency =
     (case weights_loop ratio is_word product_tokens keyword_frequency keywords of
        Inl e \<Rightarrow> Inl e
      | Inr ws \<Rightarrow> Inr (sort_desc ws))"

text \<open>The slice \<^verbatim>\<open>xs[:n]\<close>; a negative \<open>n\<close> counts from the end.\<close>

definition slice_to :: "int \<Rightarrow> 'a list \<Rightarrow> 'a list" where
  "slice_to n xs = (if 0 \<le> n then take (nat n) xs else take (length xs - nat (- n)) xs)"

text \<open>\<^verbatim>\<open>d[key] = v\<close> on a dictionary kept in insertion order.\<close>

fun dict_set :: "(ustr \<times> 'v) list \<Rightarrow> ustr \<Rightarrow> 'v \<Rightarrow> (ustr \<times> 'v) list" where
  "dict_set [] key v = [(key, v)]"
| "dict_set ((k, v') # d) key v = (if k = key then (k, v) # d else (k, v') # dict_set d key v)"

fun top_keywords_loop ::
  "(ustr \<Rightarrow> ustr \<Rightarrow> pyfloat) \<Rightarrow> (int \<Rightarrow> bool) \<Rightarrow> ustr list \<Rightarrow> (ustr \<Rightarrow> int option) \<Rightarrow> int
     \<Rightarrow> (ustr \<times> ustr list) list \<Rightarrow> (ustr \<times> ustr list) list \<Rightarrow> error + (ustr \<times> ustr list) list"
where
  "top_keywords_loop ratio is_word product_tokens keyword_frequency top_n [] top_keywords =
     Inr top_keywords"
| "top_keywords_loop ratio is_word product_tokens keyword_frequency top_n
     ((section, keywords) # rest) top_keywords =
     (if keywords = []
      then top_keywords_loop ratio is_word product_tokens keyword_frequency top_n rest top_keywords
      else (case calculate_keyword_weights ratio is_word keywords product_tokens keyword_frequency of
              Inl e \<Rightarrow> Inl e
            | Inr keyword_weights \<Rightarrow>
                top_keywords_loop ratio is_word product_tokens keyword_frequency top_n rest
                  (dict_set top_keywords section (map fst (slice_to top_n keyword_weights)))))"

definition get_top_keywords_by_section ::
  "(ustr \<Rightarrow> ustr \<Rightarrow> pyfloat) \<Rightarrow> (int \<Rightarrow> bool) \<Rightarrow> (ustr \<times> ustr list) list \<Rightarrow> ustr list
     \<Rightarrow> (ustr \<Rightarrow> int option) \<Rightarrow> int \<Rightarrow> error + (ustr \<times> ustr list) list" where
  "get_top_keywords_by_section ratio is_word section_keywords product_tokens keyword_frequency top_n =
     top_keywords_loop ratio is_word product_tokens keyword_frequency top_n section_keywords []"

section \<open>The narrative generator of text_processor.py\<close>

text \<open>
  The values that \<^verbatim>\<open>json.loads\<close> returns and that a reply of the text-generation
  service may hold.
\<close>

datatype json =
    JNull
  | JBool bool
  | JInt int
  | JFloat pyfloat
  | JString ustr
  | JArray "json list"
  | JObject "(ustr \<times> json) list"

text \<open>
  The prompt is the template of the section with the product name and the keywords
  filled in, or the prompt for a section without keywords. Only what is filled in is
  kept here.
\<close>

datatype prompt = KeywordPrompt ustr ustr "ustr list" | NoKeywordPrompt ustr ustr

text \<open>
  The client of the service, \<^verbatim>\<open>generate_overview_with_llm\<close>, is outside the source files:
  it is a parameter. A call returns a dictionary, a string or something else, or raises.
  The sections of one run are the keys of a dictionary, so no prompt is sent twice and a
  function of the prompt describes every behaviour of the service in a run.
\<close>

datatype llm_reply = ReplyDict "(ustr \<times> json) list" | ReplyStr ustr | ReplyOther | ReplyRaises

text \<open>\<^verbatim>\<open>json.loads\<close> is a parameter too: it returns a value or raises.\<close>

datatype loads_result = Loaded json | JSONDecodeError | LoadsRaises

definition no_information :: ustr where
  "no_information = [0xC815, 0xBCF4, 0x20, 0xC5C6, 0xC74C]"

fun join_with :: "ustr \<Rightarrow> ustr list \<Rightarrow> ustr" where
  "join_with sep [] = []"
| "join_with sep [x] = x"
| "join_with sep (x # y # ys) = x @ sep @ join_with sep (y # ys)"

text \<open>The sentence built from the product name, the section name and the keywords.\<close>

definition keyword_sentence :: "ustr \<Rightarrow> ustr \<Rightarrow> ustr list \<Rightarrow> ustr" where
  "keyword_sentence product_name section keywords =
     product_name @ [0xC758, 0x20] @ section @ [0xB294, 0x20] @ join_with [0x2C, 0x20] keywords
       @ [0xB97C, 0x20, 0xD3EC, 0xD568, 0xD569, 0xB2C8, 0xB2E4, 0x2E]"

text \<open>The sentence that says that no information was provided for the section.\<close>

definition missing_sentence :: "ustr \<Rightarrow> ustr \<Rightarrow> ustr" where
  "missing_sentence product_name section =
     product_name @ [0xC758, 0x20] @ section
       @ [0xC5D0, 0x20, 0xB300, 0xD55C, 0x20, 0xC815, 0xBCF4, 0xAC00, 0x20, 0xC81C, 0xACF5, 0xB418,
          0xC9C0, 0x20, 0xC54A, 0xC558, 0xC2B5, 0xB2C8, 0xB2E4, 0x2E]"

text \<open>\<^verbatim>\<open>s.find(c)\<close> and \<^verbatim>\<open>s.rfind(c)\<close> for one character; \<open>None\<close> is the result -1.\<close>

fun find_char :: "int \<Rightarrow> ustr \<Rightarrow> nat option" where
  "find_char c [] = None"
| "find_char c (x # xs) = (if x = c then Some 0 else map_option Suc (find_char c xs))"

definition rfind_char :: "int \<Rightarrow> ustr \<Rightarrow> nat option" where
  "rfind_char c s = map_option (\<lambda>i. length s - 1 - i) (find_char c (rev s))"

text \<open>The part of the reply from the first opening brace to the last closing brace.\<close>

definition json_part :: "ustr \<Rightarrow> ustr option" where
  "json_part result =
     (case find_char 0x7B result of
        None \<Rightarrow> None
      | Some json_start \<Rightarrow>
          (case rfind_char 0x7D result of
             None \<Rightarrow> None
           | Some json_end \<Rightarrow> Some (take (Suc json_end - json_start) (drop json_start result))))"

text \<open>
  \<^verbatim>\<open>section in parsed\<close> followed by \<^verbatim>\<open>parsed[section]\<close>. On a list or a string that holds
  the section name the subscript raises, and so does the membership test on a number, a
  truth value and \<^verbatim>\<open>None\<close>.
\<close>

datatype lookup = Found json | NotFound | TypeError

fun lookup_section :: "ustr \<Rightarrow> json \<Rightarrow> lookup" where
  "lookup_section section (JObject members) =
     (case map_of members section of Some v \<Rightarrow> Found v | None \<Rightarrow> NotFound)"
| "lookup_section section (JArray elements) =
     (if JString section \<in> set elements then TypeError else NotFound)"
| "lookup_section section (JString s) = (if is_in section s then TypeError else NotFound)"
| "lookup_section section other = TypeError"

fun is_str :: "json \<Rightarrow> bool" where
  "is_str (JString s) = True"
| "is_str other = False"

text \<open>
  The body of the \<^verbatim>\<open>try\<close> statement for a section with keywords: the value stored for
  the section, or \<open>None\<close> when an exception reaches the handler. A section without a
  prompt template gets the keyword sentence without a call of the service.
\<close>

definition sentence_with_keywords ::
  "(prompt \<Rightarrow> llm_reply) \<Rightarrow> (ustr \<Rightarrow> loads_result) \<Rightarrow> ustr \<Rightarrow> ustr \<Rightarrow> ustr list \<Rightarrow> json option"
where
  "sentence_with_keywords llm json_loads product_name section keywords =
     (if section \<notin> set section_names
      then Some (JString (keyword_sentence product_name section keywords))
      else
        (case llm (KeywordPrompt (if product_name = [] then no_information else product_name)
                     section keywords) of
           ReplyRaises \<Rightarrow> None
         | ReplyDict result \<Rightarrow>
             (if result = [] then Some (JString (keyword_sentence product_name section keywords))
              else (case map_of result section of
                      Some v \<Rightarrow> Some v
                    | None \<Rightarrow>
                        (case find (\<lambda>(key, v). is_str v) result of
                           Some (key, v) \<Rightarrow> Some v
                         | None \<Rightarrow> Some (JString (keyword_sentence product_name section keywords)))))
         | ReplyStr result \<Rightarrow>
             (if py_strip result = []
              then Some (JString (keyword_sentence product_name section keywords))
              else (case json_part result of
                      None \<Rightarrow> Some (JString (keyword_sentence product_name section keywords))
                    | Some json_str \<Rightarrow>
                        (case json_loads json_str of
                           JSONDecodeError \<Rightarrow>
                             Some (JString (keyword_sentence product_name section keywords))
                         | LoadsRaises \<Rightarrow> None
                         | Loaded parsed \<Rightarrow>
                             (case lookup_section section parsed of
                                Found v \<Rightarrow> Some v
                              | NotFound \<Rightarrow>
                                  Some (JString (keyword_sentence product_name section keywords))
                              | TypeError \<Rightarrow> None))))
         | ReplyOther \<Rightarrow> Some (JString (keyword_sentence product_name section keywords))))"

definition sentence_without_keywords ::
  "(prompt \<Rightarrow> llm_reply) \<Rightarrow> (ustr \<Rightarrow> loads_result) \<Rightarrow> ustr \<Rightarrow> ustr \<Rightarrow> json option"
where
  "sentence_without_keywords llm json_loads product_name section =
     (case llm (NoKeywordPrompt product_name section) of
        ReplyRaises \<Rightarrow> None
      | ReplyDict result \<Rightarrow>
          (if result = [] then Some (JString (missing_sentence product_name section))
           else (case map_of result section of
                   Some v \<Rightarrow> Some v
                 | None \<Rightarrow> Some (JString (missing_sentence product_name section))))
      | ReplyStr result \<Rightarrow>
          (if py_strip result = [] then Some (JString (missing_sentence product_name section))
           else (case json_part result of
                   None \<Rightarrow> Some (JString (missing_sentence product_name section))
                 | Some json_str \<Rightarrow>
                     (case json_loads json_str of
                        JSONDecodeError \<Rightarrow> Some (JString (missing_sentence product_name section))
                      | LoadsRaises \<Rightarrow> None
                      | Loaded parsed \<Rightarrow>
                          (case lookup_section section parsed of
                             Found v \<Rightarrow> Some v
                           | NotFound \<Rightarrow> Some (JString (missing_sentence product_name section))
                           | TypeError \<Rightarrow> None))))
      | ReplyOther \<Rightarrow> Some (JString (missing_sentence product_name section)))"

text \<open>The \<^verbatim>\<open>try\<close> statement with its handler: what is stored for one section.\<close>

definition section_sentence ::
  "(prompt \<Rightarrow> llm_reply) \<Rightarrow> (ustr \<Rightarrow> loads_result) \<Rightarrow> ustr \<Rightarrow> ustr \<Rightarrow> ustr list \<Rightarrow> json" where
  "section_sentence llm json_loads product_name section keywords =
     (if keywords \<noteq> []
      then (case sentence_with_keywords llm json_loads product_name section keywords of
              Some v \<Rightarrow> v
            | None \<Rightarrow> JString (keyword_sentence product_name section keywords))
      else (case sentence_without_keywords llm json_loads product_name section of
              Some v \<Rightarrow> v
            | None \<Rightarrow> JString (missing_sentence product_name section)))"

fun sentences_loop ::
  "(prompt \<Rightarrow> llm_reply) \<Rightarrow> (ustr \<Rightarrow> loads_result) \<Rightarrow> ustr \<Rightarrow> (ustr \<times> ustr list) list
     \<Rightarrow> (ustr \<times> json) list \<Rightarrow> (ustr \<times> json) list" where
  "sentences_loop llm json_loads product_name [] generated_sentences = generated_sentences"
| "sentences_loop llm json_loads product_name ((section, keywords) # rest) generated_sentences =
     sentences_loop llm json_loads product_name rest
       (dict_set generated_sentences section
          (section_sentence llm json_loads product_name section keywords))"

definition generate_section_sentences ::
  "(prompt \<Rightarrow> llm_reply) \<Rightarrow> (ustr \<Rightarrow> loads_result) \<Rightarrow> ustr \<Rightarrow> (ustr \<times> ustr list) list
     \<Rightarrow> (ustr \<times> json) list" where
  "generate_section_sentences llm json_loads product_name section_keywords =
     sentences_loop llm json_loads product_name section_keywords []"

section \<open>Facts about floats\<close>

lemma pow2_power_int: "pow2 e = power_int 2 e"
  by (simp add: pow2_def power_int_def inverse_eq_divide power_one_over)

lemma pow2_pos: "0 < pow2 e"
  by (simp add: pow2_power_int zero_less_power_int)

lemma pow2_add: "pow2 (a + b) = pow2 a * pow2 b"
  by (simp add: pow2_power_int power_int_add)

lemma pow2_nat: "pow2 (int n) = 2 ^ n"
  by (simp add: pow2_def)

lemma pow2_shift: "e1 \<le> e2 \<Longrightarrow> pow2 e2 = pow2 e1 * 2 ^ nat (e2 - e1)"
proof -
  assume "e1 \<le> e2"
  then have "e2 = e1 + int (nat (e2 - e1))" by simp
  then have "pow2 e2 = pow2 e1 * pow2 (int (nat (e2 - e1)))" by (metis pow2_add)
  then show ?thesis by (simp only: pow2_nat)
qed

lemma fless_fval: "fless a b \<longleftrightarrow> fval a < fval b"
proof (cases a; cases b)
  fix m1 e1 m2 e2
  assume a: "a = Dyadic m1 e1" and b: "b = Dyadic m2 e2"
  show ?thesis
  proof (cases "e1 \<le> e2")
    case True
    have "fval b = of_int (m2 * 2 ^ nat (e2 - e1)) * pow2 e1"
      using pow2_shift[OF True] by (simp add: b)
    then show ?thesis
      using True pow2_pos[of e1] by (simp add: a b del: of_int_mult of_int_power)
  next
    case False
    then have le: "e2 \<le> e1" by simp
    have "fval a = of_int (m1 * 2 ^ nat (e1 - e2)) * pow2 e2"
      using pow2_shift[OF le] by (simp add: a)
    then show ?thesis
      using False pow2_pos[of e2] by (simp add: a b del: of_int_mult of_int_power)
  qed
qed

lemma fle_fval: "fle a b \<longleftrightarrow> fval a \<le> fval b"
proof (cases a; cases b)
  fix m1 e1 m2 e2
  assume a: "a = Dyadic m1 e1" and b: "b = Dyadic m2 e2"
  show ?thesis
  proof (cases "e1 \<le> e2")
    case True
    have "fval b = of_int (m2 * 2 ^ nat (e2 - e1)) * pow2 e1"
      using pow2_shift[OF True] by (simp add: b)
    then show ?thesis
      using True pow2_pos[of e1] by (simp add: a b del: of_int_mult of_int_power)
  next
    case False
    then have le: "e2 \<le> e1" by simp
    have "fval a = of_int (m1 * 2 ^ nat (e1 - e2)) * pow2 e2"
      using pow2_shift[OF le] by (simp add: a)
    then show ?thesis
      using False pow2_pos[of e2] by (simp add: a b del: of_int_mult of_int_power)
  qed
qed
section \<open>Properties of the section classifier\<close>

lemma section_names_eq:
  "section_names =
     [sec_ingredients, sec_appearance, sec_efficacy, sec_dosage, sec_precautions,
      sec_interactions, sec_pregnancy, sec_elderly, sec_application, sec_storage,
      sec_manufacturer]"
  by (simp add: section_names_def section_keyword_sets_def)

lemmas section_name_defs =
  sec_ingredients_def sec_appearance_def sec_efficacy_def sec_dosage_def sec_precautions_def
  sec_interactions_def sec_pregnancy_def sec_elderly_def sec_application_def sec_storage_def
  sec_manufacturer_def

lemma distinct_section_names: "distinct section_names"
  by (simp add: section_names_eq section_name_defs)

lemma section_names_nonempty: "[] \<notin> set section_names"
  by (simp add: section_names_eq section_name_defs)

lemma initial_keys: "map fst initial_section_keywords = section_names"
  by (simp add: initial_section_keywords_def section_names_eq)

subsection \<open>The loop over the sections computes the first best section\<close>

lemma fmax_cases: "fmax a b = (if fval a < fval b then b else a)"
  by (simp add: fmax_def fless_fval)

lemma foldl_fmax_ge: "fval a \<le> fval (foldl fmax a xs)"
proof (induction xs arbitrary: a)
  case Nil
  then show ?case by simp
next
  case (Cons x xs)
  have "fval a \<le> fval (fmax a x)" by (simp add: fmax_cases)
  also have "\<dots> \<le> fval (foldl fmax (fmax a x) xs)" by (rule Cons.IH)
  finally show ?case by simp
qed

lemma best_section_loop_score:
  "snd (best_section_loop keyword kl configs (b, sc)) =
   foldl fmax sc (map (total_score keyword kl) configs)"
  by (induction configs arbitrary: b sc) (simp_all add: fmax_def)

lemma best_section_loop_section:
  "fst (best_section_loop keyword kl configs (b, sc)) =
   (if fval sc < fval (foldl fmax sc (map (total_score keyword kl) configs))
    then map_option fst
           (find (\<lambda>config. fval (foldl fmax sc (map (total_score keyword kl) configs))
                            \<le> fval (total_score keyword kl config)) configs)
    else b)"
proof (induction configs arbitrary: b sc)
  case Nil
  then show ?case by simp
next
  case (Cons c configs)
  let ?t = "total_score keyword kl c"
  show ?case
  proof (cases "fval sc < fval ?t")
    case True
    let ?M = "foldl fmax ?t (map (total_score keyword kl) configs)"
    have M: "foldl fmax sc (map (total_score keyword kl) (c # configs)) = ?M"
      using True by (simp add: fmax_cases)
    have ge: "fval ?t \<le> fval ?M" by (rule foldl_fmax_ge)
    have loop: "best_section_loop keyword kl (c # configs) (b, sc) =
                best_section_loop keyword kl configs (Some (fst c), ?t)"
      using True by (simp add: fless_fval)
    show ?thesis
    proof (cases "fval ?t < fval ?M")
      case True
      with Cons.IH[of "Some (fst c)" ?t] loop M ge \<open>fval sc < fval ?t\<close> show ?thesis
        by (simp del: best_section_loop.simps foldl_Cons)
    next
      case False
      with ge have "fval ?M \<le> fval ?t" by simp
      with False Cons.IH[of "Some (fst c)" ?t] loop M ge \<open>fval sc < fval ?t\<close> show ?thesis
        by (simp del: best_section_loop.simps foldl_Cons)
    qed
  next
    case False
    let ?M = "foldl fmax sc (map (total_score keyword kl) configs)"
    have M: "foldl fmax sc (map (total_score keyword kl) (c # configs)) = ?M"
      using False by (simp add: fmax_cases)
    have loop: "best_section_loop keyword kl (c # configs) (b, sc) =
                best_section_loop keyword kl configs (b, sc)"
      using False by (simp add: fless_fval)
    from False have "\<not> fval ?M \<le> fval ?t" if "fval sc < fval ?M"
      using that by simp
    with Cons.IH[of b sc] loop M show ?thesis
      by (simp del: best_section_loop.simps foldl_Cons)
  qed
qed

subsection \<open>The section a keyword is appended to\<close>

lemma highest_score_loop: "snd (best_section_and_score keyword) = highest_score keyword"
  by (simp add: best_section_and_score_def best_section_loop_score highest_score_def
      section_scores_def comp_def)

lemma find_map_pair:
  "find (\<lambda>(a, b). P b) (map (\<lambda>c. (f c, g c)) xs) = map_option (\<lambda>c. (f c, g c)) (find (\<lambda>c. P (g c)) xs)"
  by (induction xs) simp_all

lemma first_best_section_loop:
  assumes "fval f_0_0 < fval (highest_score keyword)"
  shows "fst (best_section_and_score keyword) = first_best_section keyword"
proof -
  have h: "foldl fmax f_0_0 (map (total_score keyword (py_lower keyword)) section_keyword_sets)
           = highest_score keyword"
    by (simp add: highest_score_def section_scores_def comp_def)
  show ?thesis
    unfolding best_section_and_score_def best_section_loop_section h first_best_section_def
    using assms
    by (simp add: section_scores_def find_map_pair fle_fval option.map_comp comp_def)
qed

lemma first_best_section_name:
  assumes "first_best_section keyword = Some s"
  shows "s \<in> set section_names"
proof -
  from assms obtain p where "find (\<lambda>(section, score). fle (highest_score keyword) score)
      (section_scores keyword) = Some p" and s: "s = fst p"
    by (auto simp: first_best_section_def)
  then have "p \<in> set (section_scores keyword)"
    by (auto simp: find_Some_iff in_set_conv_nth)
  with s show ?thesis
    by (force simp: section_scores_def section_names_def)
qed

lemma fallback_section_described: "fallback_section keyword = described_fallback_section keyword"
  by (simp add: fallback_section_def described_fallback_section_def fallback_form_words_def
      fallback_look_words_def fallback_container_words_def form_related_words_def Let_def)

lemma fallback_section_name: "fallback_section keyword \<in> set section_names"
  by (simp add: fallback_section_def section_names_eq Let_def)

lemma half_positive: "fval f_0_0 < fval f_0_5"
  by (simp add: f_0_0_def f_0_5_def pow2_def)

lemma assigned_section_cases:
  "assigned_section keyword =
     (if fle f_0_5 (highest_score keyword)
      then (case first_best_section keyword of
              Some s \<Rightarrow> s
            | None \<Rightarrow> fallback_section keyword)
      else fallback_section keyword)"
proof (cases "fle f_0_5 (highest_score keyword)")
  case True
  with half_positive have pos: "fval f_0_0 < fval (highest_score keyword)"
    by (simp add: fle_fval)
  obtain b sc where bs: "best_section_and_score keyword = (b, sc)"
    by (cases "best_section_and_score keyword")
  with highest_score_loop[of keyword] first_best_section_loop[OF pos]
  have sc: "sc = highest_score keyword" and b: "b = first_best_section keyword" by simp_all
  show ?thesis
  proof (cases b)
    case None
    with bs b True show ?thesis by (simp add: assigned_section_def)
  next
    case (Some s)
    with b have fb: "first_best_section keyword = Some s" by simp
    with first_best_section_name[of keyword s] section_names_nonempty have "s \<noteq> []" by auto
    with bs Some sc fb True show ?thesis by (simp add: assigned_section_def)
  qed
next
  case False
  obtain b sc where bs: "best_section_and_score keyword = (b, sc)"
    by (cases "best_section_and_score keyword")
  with highest_score_loop[of keyword] have "sc = highest_score keyword" by simp
  with bs False show ?thesis by (simp add: assigned_section_def split: option.splits)
qed

lemma assigned_section_name: "assigned_section keyword \<in> set section_names"
  using first_best_section_name[of keyword] fallback_section_name[of keyword]
  by (auto simp: assigned_section_cases split: option.splits)

subsection \<open>The loop over the keywords\<close>

lemma dict_append_present:
  assumes "key \<in> set (map fst d)" and "distinct (map fst d)"
  shows "dict_append d key v = Some (map (\<lambda>(k, vs). (k, if k = key then vs @ [v] else vs)) d)"
  using assms
proof (induction d)
  case Nil
  then show ?case by simp
next
  case (Cons p d)
  obtain k vs where p: "p = (k, vs)" by (cases p)
  show ?case
  proof (cases "k = key")
    case True
    with Cons.prems p have "key \<notin> fst ` set d" by simp
    then have "map (\<lambda>(k, vs). (k, if k = key then vs @ [v] else vs)) d = d"
      by (intro map_idI) (auto simp: image_iff)
    with True p show ?thesis by simp
  next
    case False
    with Cons p show ?thesis by simp
  qed
qed

lemma classify_loop_filter:
  assumes "map fst d = section_names"
  shows "classify_loop kws d =
         Some (map (\<lambda>(s, ks). (s, ks @ filter (\<lambda>k. assigned_section k = s) kws)) d)"
  using assms
proof (induction kws arbitrary: d)
  case Nil
  then show ?case by (simp add: case_prod_unfold)
next
  case (Cons kw kws)
  let ?d' = "map (\<lambda>(k, vs). (k, if k = assigned_section kw then vs @ [kw] else vs)) d"
  from Cons.prems assigned_section_name[of kw] distinct_section_names
  have "dict_append d (assigned_section kw) kw = Some ?d'"
    by (intro dict_append_present) simp_all
  moreover from Cons.prems have "map fst ?d' = section_names"
    by (simp add: case_prod_unfold comp_def)
  ultimately show ?case
    using Cons.IH[of ?d'] by (auto simp: case_prod_unfold comp_def)
qed

lemma classify_by_assigned_section:
  "classify_keywords_by_section kws =
   Some (map (\<lambda>s. (s, filter (\<lambda>k. assigned_section k = s) kws)) section_names)"
proof -
  have "map (\<lambda>(s, ks). (s, ks @ filter (\<lambda>k. assigned_section k = s) kws)) initial_section_keywords
        = map (\<lambda>s. (s, filter (\<lambda>k. assigned_section k = s) kws)) section_names"
    by (simp add: initial_section_keywords_def section_names_eq)
  with classify_loop_filter[OF initial_keys, of kws] show ?thesis
    by (simp add: classify_keywords_by_section_def)
qed

lemma sum_length_filter_by_key:
  assumes "distinct ss" and "\<forall>x \<in> set xs. f x \<in> set ss"
  shows "sum_list (map (\<lambda>s. length (filter (\<lambda>x. f x = s) xs)) ss) = length xs"
  using assms(2)
proof (induction xs)
  case Nil
  then show ?case by simp
next
  case (Cons x xs)
  then have in_ss: "f x \<in> set ss" and rest: "\<forall>y \<in> set xs. f y \<in> set ss" by simp_all
  have one: "sum_list (map (\<lambda>s. if f x = s then 1 else 0) ss) = (1::nat)"
    using assms(1) in_ss
  proof (induction ss)
    case Nil
    then show ?case by simp
  next
    case (Cons s ss)
    then show ?case by (cases "f x = s") auto
  qed
  have "sum_list (map (\<lambda>s. length (filter (\<lambda>y. f y = s) (x # xs))) ss)
        = sum_list (map (\<lambda>s. (if f x = s then 1 else 0) + length (filter (\<lambda>y. f y = s) xs)) ss)"
    by (intro arg_cong[where f = sum_list] map_cong) auto
  also have "\<dots> = sum_list (map (\<lambda>s. if f x = s then 1 else 0) ss)
                  + sum_list (map (\<lambda>s. length (filter (\<lambda>y. f y = s) xs)) ss)"
    by (simp add: sum_list_addf)
  finally show ?case using one Cons.IH[OF rest] by simp
qed

text \<open>
  C1. For every list of keywords the classifier returns a dictionary (no key is
  missing) whose keys are the eleven section names; the lengths of its lists add up to
  the length of the input, and each input keyword is in the list of exactly one section.
\<close>

theorem classify_assigns_each_keyword_once:
  "\<exists>d. classify_keywords_by_section kws = Some d
       \<and> map fst d = section_names \<and> distinct section_names \<and> length section_names = 11
       \<and> sum_list (map (\<lambda>(s, ks). length ks) d) = length kws
       \<and> (\<forall>k \<in> set kws. \<exists>!s. \<exists>ks. (s, ks) \<in> set d \<and> k \<in> set ks)"
proof -
  let ?d = "map (\<lambda>s. (s, filter (\<lambda>k. assigned_section k = s) kws)) section_names"
  have keys: "map fst ?d = section_names" by (simp add: comp_def)
  have "sum_list (map (\<lambda>(s, ks). length ks) ?d)
        = sum_list (map (\<lambda>s. length (filter (\<lambda>k. assigned_section k = s) kws)) section_names)"
    by (simp add: comp_def)
  also have "\<dots> = length kws"
    using distinct_section_names assigned_section_name by (intro sum_length_filter_by_key) simp_all
  finally have total: "sum_list (map (\<lambda>(s, ks). length ks) ?d) = length kws" .
  have once: "\<exists>!s. \<exists>ks. (s, ks) \<in> set ?d \<and> k \<in> set ks" if "k \<in> set kws" for k
  proof (rule ex1I[where a = "assigned_section k"])
    show "\<exists>ks. (assigned_section k, ks) \<in> set ?d \<and> k \<in> set ks"
      using that assigned_section_name[of k] by auto
  next
    fix s
    assume "\<exists>ks. (s, ks) \<in> set ?d \<and> k \<in> set ks"
    then show "s = assigned_section k" by auto
  qed
  have "length section_names = 11" by (simp add: section_names_eq)
  with classify_by_assigned_section[of kws] keys total once distinct_section_names
  show ?thesis by blast
qed

text \<open>
  C4. A keyword whose best section score is below \<open>0.5\<close> is appended to the section of
  the fallback chain: the ingredient section for a digit, else the appearance section
  for a form-related substring, else the storage section for a container-related
  substring, else the default section. A keyword whose best score is at least \<open>0.5\<close> is
  appended to the first section with that best score. In both cases the keyword is in
  the list that the classifier returns for that section.
\<close>

theorem classify_threshold_and_fallback:
  "(fless (highest_score k) f_0_5 \<longrightarrow> assigned_section k = described_fallback_section k)
   \<and> (fle f_0_5 (highest_score k) \<longrightarrow> first_best_section k = Some (assigned_section k))
   \<and> (k \<in> set kws \<longrightarrow>
        (\<exists>d ks. classify_keywords_by_section kws = Some d
                \<and> map_of d (assigned_section k) = Some ks \<and> k \<in> set ks))"
proof (intro conjI impI)
  assume "fless (highest_score k) f_0_5"
  then have "\<not> fle f_0_5 (highest_score k)" by (simp add: fless_fval fle_fval)
  then show "assigned_section k = described_fallback_section k"
    by (simp add: assigned_section_cases fallback_section_described)
next
  assume ge: "fle f_0_5 (highest_score k)"
  with half_positive have pos: "fval f_0_0 < fval (highest_score k)" by (simp add: fle_fval)
  have "\<exists>c \<in> set (section_scores k). fval (highest_score k) \<le> fval (snd c)"
  proof (rule ccontr)
    assume "\<not> ?thesis"
    then have below: "\<forall>x \<in> set (map snd (section_scores k)). fval x < fval (highest_score k)"
      by auto
    have "fval (foldl fmax a xs) \<le> fval a \<or> (\<exists>x \<in> set xs. fval (foldl fmax a xs) \<le> fval x)" for a xs
    proof (induction xs arbitrary: a)
      case Nil
      then show ?case by simp
    next
      case (Cons x xs)
      from Cons.IH[of "fmax a x"] show ?case by (auto simp: fmax_cases split: if_splits)
    qed
    from this[of f_0_0 "map snd (section_scores k)"] below pos show False
      unfolding highest_score_def[symmetric] by force
  qed
  then obtain p where "find (\<lambda>(section, score). fle (highest_score k) score) (section_scores k) = Some p"
    by (cases "find (\<lambda>(section, score). fle (highest_score k) score) (section_scores k)")
       (auto simp: find_None_iff fle_fval)
  then have "first_best_section k = Some (fst p)" by (simp add: first_best_section_def)
  with ge show "first_best_section k = Some (assigned_section k)"
    by (simp add: assigned_section_cases)
next
  assume "k \<in> set kws"
  let ?d = "map (\<lambda>s. (s, filter (\<lambda>k. assigned_section k = s) kws)) section_names"
  have "map_of ?d (assigned_section k) = Some (filter (\<lambda>k'. assigned_section k' = assigned_section k) kws)"
    using assigned_section_name[of k] by (simp add: map_of_map_restrict)
  with \<open>k \<in> set kws\<close> classify_by_assigned_section[of kws]
  show "\<exists>d ks. classify_keywords_by_section kws = Some d
                \<and> map_of d (assigned_section k) = Some ks \<and> k \<in> set ks"
    by simp
qed

subsection \<open>The scores of the scenario keywords\<close>

lemma section_scores_semaglutide:
  "section_scores kw_semaglutide =
     [(sec_ingredients, Dyadic 8106479329266892 (- 50)), (sec_appearance, Dyadic 0 0),
      (sec_efficacy, Dyadic 0 (- 52)), (sec_dosage, Dyadic 0 (- 52)),
      (sec_precautions, Dyadic 0 0), (sec_interactions, Dyadic 0 (- 53)),
      (sec_pregnancy, Dyadic 0 (- 53)), (sec_elderly, Dyadic 0 (- 53)),
      (sec_application, Dyadic 0 (- 53)), (sec_storage, Dyadic 0 0),
      (sec_manufacturer, Dyadic 0 (- 53))]"
  by code_simp

lemma section_scores_one_mg:
  "section_scores kw_1mg =
     [(sec_ingredients, Dyadic 8106479329266892 (- 51)), (sec_appearance, Dyadic 0 0),
      (sec_efficacy, Dyadic 0 (- 52)), (sec_dosage, Dyadic 0 (- 52)),
      (sec_precautions, Dyadic 0 0), (sec_interactions, Dyadic 0 (- 53)),
      (sec_pregnancy, Dyadic 0 (- 53)), (sec_elderly, Dyadic 0 (- 53)),
      (sec_application, Dyadic 0 (- 53)), (sec_storage, Dyadic 0 0),
      (sec_manufacturer, Dyadic 0 (- 53))]"
  by code_simp

lemma section_scores_glass:
  "section_scores kw_glass =
     [(sec_ingredients, Dyadic 0 (- 52)), (sec_appearance, Dyadic 0 0),
      (sec_efficacy, Dyadic 0 (- 52)), (sec_dosage, Dyadic 0 (- 52)),
      (sec_precautions, Dyadic 0 0), (sec_interactions, Dyadic 0 (- 53)),
      (sec_pregnancy, Dyadic 0 (- 53)), (sec_elderly, Dyadic 0 (- 53)),
      (sec_application, Dyadic 0 (- 53)), (sec_storage, Dyadic 0 0),
      (sec_manufacturer, Dyadic 0 (- 53))]"
  by code_simp

lemma section_scores_bottle:
  "section_scores kw_bottle =
     [(sec_ingredients, Dyadic 0 (- 52)), (sec_appearance, Dyadic 0 0),
      (sec_efficacy, Dyadic 0 (- 52)), (sec_dosage, Dyadic 0 (- 52)),
      (sec_precautions, Dyadic 0 0), (sec_interactions, Dyadic 8106479329266893 (- 53)),
      (sec_pregnancy, Dyadic 0 (- 53)), (sec_elderly, Dyadic 0 (- 53)),
      (sec_application, Dyadic 0 (- 53)), (sec_storage, Dyadic 0 0),
      (sec_manufacturer, Dyadic 0 (- 53))]"
  by code_simp
lemma highest_score_semaglutide: "highest_score kw_semaglutide = Dyadic 8106479329266892 (- 50)"
  by (simp add: highest_score_def section_scores_semaglutide fmax_def f_0_0_def)

lemma highest_score_one_mg: "highest_score kw_1mg = Dyadic 8106479329266892 (- 51)"
  by (simp add: highest_score_def section_scores_one_mg fmax_def f_0_0_def)

lemma highest_score_glass: "highest_score kw_glass = Dyadic 0 0"
  by (simp add: highest_score_def section_scores_glass fmax_def f_0_0_def)

lemma highest_score_bottle: "highest_score kw_bottle = Dyadic 8106479329266893 (- 53)"
  by (simp add: highest_score_def section_scores_bottle fmax_def f_0_0_def)

lemma assigned_section_semaglutide: "assigned_section kw_semaglutide = sec_ingredients"
  by (simp add: assigned_section_cases first_best_section_def highest_score_semaglutide
      section_scores_semaglutide f_0_5_def)

lemma assigned_section_one_mg: "assigned_section kw_1mg = sec_ingredients"
  by (simp add: assigned_section_cases first_best_section_def highest_score_one_mg
      section_scores_one_mg f_0_5_def)

lemma described_fallback_glass: "described_fallback_section kw_glass = sec_ingredients"
  by code_simp

lemma assigned_section_glass: "assigned_section kw_glass = sec_ingredients"
  using described_fallback_glass
  by (simp add: assigned_section_cases highest_score_glass f_0_5_def fallback_section_described)

lemma assigned_section_bottle: "assigned_section kw_bottle = sec_interactions"
  by (simp add: assigned_section_cases first_best_section_def highest_score_bottle
      section_scores_bottle f_0_5_def section_name_defs)

text \<open>
  C2, as the code has it. Of the keywords semaglutide, \<open>1mg\<close>, glass and bottle, the
  first two are appended to the ingredient section. Glass matches no configured keyword
  and no fallback word, so it goes to the default, the ingredient section. Bottle is a
  part of one configured keyword of the interaction section and is appended there. The
  storage section stays empty.
\<close>

theorem scenario_classification:
  "classify_keywords_by_section [kw_semaglutide, kw_1mg, kw_glass, kw_bottle] =
   Some [(sec_ingredients, [kw_semaglutide, kw_1mg, kw_glass]), (sec_appearance, []),
         (sec_efficacy, []), (sec_dosage, []), (sec_precautions, []),
         (sec_interactions, [kw_bottle]), (sec_pregnancy, []), (sec_elderly, []),
         (sec_application, []), (sec_storage, []), (sec_manufacturer, [])]"
  by (simp add: classify_by_assigned_section section_names_eq assigned_section_semaglutide
      assigned_section_one_mg assigned_section_glass assigned_section_bottle section_name_defs)

text \<open>
  C2, as the specification states it, fails: the list of the storage section is empty, so
  neither glass nor bottle is placed there.
\<close>

theorem scenario_storage_section_empty:
  "map_of (the (classify_keywords_by_section [kw_semaglutide, kw_1mg, kw_glass, kw_bottle]))
     sec_storage = Some []"
  by (simp add: classify_by_assigned_section section_names_eq assigned_section_semaglutide
      assigned_section_one_mg assigned_section_glass assigned_section_bottle section_name_defs)

theorem classify_assigns_each_keyword_once_witness:
  "\<exists>d. classify_keywords_by_section [kw_1mg, kw_glass] = Some d
       \<and> map fst d = section_names \<and> distinct section_names \<and> length section_names = 11
       \<and> sum_list (map (\<lambda>(s, ks). length ks) d) = length [kw_1mg, kw_glass]
       \<and> (\<exists>!s. \<exists>ks. (s, ks) \<in> set d \<and> kw_1mg \<in> set ks)
       \<and> (\<exists>!s. \<exists>ks. (s, ks) \<in> set d \<and> kw_glass \<in> set ks)"
  using classify_assigns_each_keyword_once[of "[kw_1mg, kw_glass]"] by simp

theorem classify_threshold_and_fallback_witness:
  "fless (highest_score kw_glass) f_0_5
   \<and> assigned_section kw_glass = described_fallback_section kw_glass
   \<and> fle f_0_5 (highest_score kw_1mg)
   \<and> first_best_section kw_1mg = Some (assigned_section kw_1mg)
   \<and> kw_1mg \<in> set [kw_glass, kw_1mg]
   \<and> (\<exists>d ks. classify_keywords_by_section [kw_glass, kw_1mg] = Some d
              \<and> map_of d (assigned_section kw_1mg) = Some ks \<and> kw_1mg \<in> set ks)"
  using classify_threshold_and_fallback[of kw_glass "[kw_glass, kw_1mg]"]
    classify_threshold_and_fallback[of kw_1mg "[kw_glass, kw_1mg]"]
  by (simp add: highest_score_glass highest_score_one_mg f_0_5_def)

text \<open>
  C3. The classifier gives the number bonus to the section named by a string literal that
  is none of the eleven configured section names. So the bonus is \<open>0.0\<close> for each of
  the eleven sections and every keyword, with or without a digit: no configured section
  receives a positive bonus.
\<close>

theorem number_bonus_never_applied:
  "map (number_bonus keyword) section_names = replicate 11 f_0_0"
  by (simp add: number_bonus_def section_names_def section_keyword_sets_def
      bonus_section_name_def sec_ingredients_def sec_appearance_def sec_efficacy_def
      sec_dosage_def sec_precautions_def sec_interactions_def sec_pregnancy_def
      sec_elderly_def sec_application_def sec_storage_def sec_manufacturer_def
      eval_nat_numeral)

section \<open>Properties of the tokenizers\<close>

text \<open>
  C5. On the text made of the drug name semaglutide, \<open>1mg\<close> and the word for injection,
  separated by blanks, the tokenizer returns these three tokens: \<open>1mg\<close> is one token
  and no token is \<open>1\<close> or \<open>mg\<close>.
\<close>

theorem split_into_tokens_keeps_1mg:
  "split_into_tokens
     [0xC138, 0xB9C8, 0xAE00, 0xB8E8, 0xD0C0, 0xC774, 0xB4DC, 0x20, 0x31, 0x6D, 0x67, 0x20,
      0xC8FC, 0xC0AC, 0xC81C]
   = [[0xC138, 0xB9C8, 0xAE00, 0xB8E8, 0xD0C0, 0xC774, 0xB4DC], [0x31, 0x6D, 0x67],
      [0xC8FC, 0xC0AC, 0xC81C]]"
  by code_simp

lemma re_scan_group:
  "(skipped', matched, grp) \<in> set (fst (re_scan m skipped s)) \<Longrightarrow> \<exists>t rest. m t = Some (grp, rest)"
proof (induction m skipped s arbitrary: skipped' matched grp rule: re_scan.induct)
  case (1 m skipped)
  then show ?case by simp
next
  case (2 m skipped c cs)
  show ?case
  proof (cases "m (c # cs)")
    case None
    with 2 show ?thesis by simp
  next
    case (Some a)
    obtain g rest where a: "a = (g, rest)" by (cases a)
    show ?thesis
    proof (cases "length rest \<le> length cs")
      case True
      obtain found tail where r: "re_scan m [] rest = (found, tail)" by (cases "re_scan m [] rest")
      from "2.prems" Some a True r
      have "(skipped', matched, grp) = (skipped, take (Suc (length cs) - length rest) (c # cs), g)
            \<or> (skipped', matched, grp) \<in> set found"
        by simp
      then show ?thesis
      proof
        assume "(skipped', matched, grp) = (skipped, take (Suc (length cs) - length rest) (c # cs), g)"
        with Some a show ?thesis by auto
      next
        assume "(skipped', matched, grp) \<in> set found"
        with "2.IH"(2)[OF Some a[symmetric] True] r show ?thesis by simp
      qed
    next
      case False
      with 2 Some a show ?thesis by simp
    qed
  qed
qed

lemma match_literal_split:
  "match_literal w a = Some rest \<Longrightarrow> \<exists>x. a = x @ rest \<and> list_all2 char_matches_ignorecase w x"
proof (induction w a rule: match_literal.induct)
  case (1 s)
  then show ?case by simp
next
  case (2 p ps)
  then show ?case by simp
next
  case (3 p ps c cs)
  then obtain x where "cs = x @ rest" "list_all2 char_matches_ignorecase ps x" "char_matches_ignorecase p c"
    by (auto split: if_splits)
  then have "c # cs = (c # x) @ rest \<and> list_all2 char_matches_ignorecase (p # ps) (c # x)"
    by simp
  then show ?case by blast
qed

lemma first_unit_match_group:
  "first_unit_match candidates = Some (grp, rest) \<Longrightarrow>
   \<exists>w \<in> set unit_words. list_all2 char_matches_ignorecase w grp"
proof (induction candidates)
  case Nil
  then show ?case by simp
next
  case (Cons a candidates)
  show ?case
  proof (cases "rmatch (OneOf unit_words) a")
    case Nil
    with Cons.prems have "first_unit_match candidates = Some (grp, rest)"
      by (simp del: rmatch.simps)
    with Cons.IH show ?thesis .
  next
    case rs: (Cons r rs)
    with Cons.prems have g: "grp = take (length a - length r) a"
      by (auto simp del: rmatch.simps)
    from rs have "r \<in> set (rmatch (OneOf unit_words) a)" by simp
    then obtain w where w: "w \<in> set unit_words" "match_literal w a = Some r"
      by (auto simp: literal_rests_def split: option.splits)
    from match_literal_split[OF w(2)] obtain x where x: "a = x @ r" "list_all2 char_matches_ignorecase w x"
      by blast
    from x(1) g have "grp = x" by simp
    with w(1) x(2) show ?thesis by blast
  qed
qed


lemma simple_lower_cases:
  "simple_lower c = v \<Longrightarrow>
   c = v \<or> (c = v - 0x20 \<and> 0x41 \<le> c \<and> c \<le> 0x5A) \<or> (c = 0x130 \<and> v = 0x69) \<or> (c = 0x212A \<and> v = 0x6B)"
  by (auto simp: simple_lower_def split: if_splits)

lemma ignorecase_candidates:
  assumes "char_matches_ignorecase p c"
  shows "c \<in> set (concat (map (\<lambda>v. [v, v - 0x20, 0x130, 0x212A]) [simple_lower p, 0x131, 0x17F]))"
proof -
  from assms have "simple_lower c = simple_lower p \<or> simple_lower c = 0x131 \<or> simple_lower c = 0x17F"
    unfolding char_matches_ignorecase_def by blast
  then obtain v where v: "v = simple_lower p \<or> v = 0x131 \<or> v = 0x17F" and c: "simple_lower c = v"
    by blast
  from simple_lower_cases[OF c] have "c = v \<or> c = v - 0x20 \<or> c = 0x130 \<or> c = 0x212A"
    by blast
  with v show ?thesis by auto
qed

lemma unit_chars_checked:
  "list_all (\<lambda>p. list_all (\<lambda>c. char_matches_ignorecase p c \<longrightarrow> \<not> is_digit c \<and> \<not> is_space c)
       (concat (map (\<lambda>v. [v, v - 0x20, 0x130, 0x212A]) [simple_lower p, 0x131, 0x17F])))
     (concat unit_words)"
  by code_simp

lemma unit_char_not_digit_or_space:
  assumes "p \<in> set (concat unit_words)" and "char_matches_ignorecase p c"
  shows "\<not> is_digit c \<and> \<not> is_space c"
  using unit_chars_checked ignorecase_candidates[OF assms(2)] assms
  unfolding list_all_iff by blast

lemma strip_without_space:
  assumes "list_all (\<lambda>c. \<not> is_space c) s"
  shows "py_strip s = s"
proof -
  have d: "dropWhile is_space t = t" if "list_all (\<lambda>c. \<not> is_space c) t" for t
    using that by (cases t) simp_all
  from assms have "list_all (\<lambda>c. \<not> is_space c) (rev s)" by (simp add: list_all_iff)
  with d[of "rev s"] d[OF assms] show ?thesis by (simp add: py_strip_def)
qed

lemma unit_word_match:
  assumes "w \<in> set unit_words" and "list_all2 char_matches_ignorecase w u"
  shows "\<not> has_digit u \<and> py_strip u = u \<and> u \<noteq> []"
proof -
  have "\<not> is_digit c \<and> \<not> is_space c" if "c \<in> set u" for c
  proof -
    from that obtain i where i: "i < length u" "c = u ! i"
      by (auto simp: in_set_conv_nth)
    with assms(2) have "w ! i \<in> set w" "char_matches_ignorecase (w ! i) c"
      by (auto simp: list_all2_conv_all_nth)
    then obtain p where "p \<in> set w" "char_matches_ignorecase p c"
      by blast
    with assms(1) unit_char_not_digit_or_space[of p c] show ?thesis by auto
  qed
  then have "\<not> has_digit u" and "list_all (\<lambda>c. \<not> is_space c) u"
    by (auto simp: has_digit_def list_ex_iff list_all_iff)
  moreover from assms(1) have "w \<noteq> []" by (auto simp: unit_words_def)
  with assms(2) have "u \<noteq> []" by auto
  ultimately show ?thesis by (simp add: strip_without_space)
qed

lemma number_units_are_units:
  assumes "u \<in> set (re_findall_group number_unit_matcher product_name)"
  shows "\<exists>w \<in> set unit_words. list_all2 char_matches_ignorecase w u"
proof -
  from assms obtain skipped matched
    where "(skipped, matched, u) \<in> set (fst (re_scan number_unit_matcher [] product_name))"
    by (auto simp: re_findall_group_def)
  from re_scan_group[OF this] obtain t rest where "number_unit_matcher t = Some (u, rest)"
    by blast
  then show ?thesis
    unfolding number_unit_matcher_def by (rule first_unit_match_group)
qed

text \<open>
  C10. The product-name tokenizer returns, for each number-unit match, the text of the
  unit group only: the tokens are those of the name with the matches cut out, followed by
  the unit texts, each of which is one of the nine unit words up to letter case and holds
  no digit. For the name made of semaglutide, \<open>1mg\<close> and the word for injection the
  tokens are semaglutide, injection and \<open>mg\<close>.
\<close>

theorem tokenize_product_name_keeps_unit_only:
  "tokenize_product_name
     [0xC138, 0xB9C8, 0xAE00, 0xB8E8, 0xD0C0, 0xC774, 0xB4DC, 0x20, 0x31, 0x6D, 0x67, 0x20,
      0xC8FC, 0xC0AC, 0xC81C]
   = [[0xC138, 0xB9C8, 0xAE00, 0xB8E8, 0xD0C0, 0xC774, 0xB4DC], [0xC8FC, 0xC0AC, 0xC81C],
      [0x6D, 0x67]]
   \<and> tokenize_product_name product_name =
       (if product_name = [] then []
        else filter (\<lambda>token. token \<noteq> [])
               (map py_strip
                  (re_split is_space (py_strip (re_sub_empty number_unit_matcher product_name))))
             @ re_findall_group number_unit_matcher product_name)
   \<and> list_all (\<lambda>u. \<not> has_digit u \<and> list_ex (\<lambda>w. list_all2 char_matches_ignorecase w u) unit_words)
        (re_findall_group number_unit_matcher product_name)"
proof (intro conjI)
  show "tokenize_product_name
     [0xC138, 0xB9C8, 0xAE00, 0xB8E8, 0xD0C0, 0xC774, 0xB4DC, 0x20, 0x31, 0x6D, 0x67, 0x20,
      0xC8FC, 0xC0AC, 0xC81C]
   = [[0xC138, 0xB9C8, 0xAE00, 0xB8E8, 0xD0C0, 0xC774, 0xB4DC], [0xC8FC, 0xC0AC, 0xC81C],
      [0x6D, 0x67]]"
    by code_simp
next
  have u: "\<not> has_digit u \<and> py_strip u = u \<and> u \<noteq> []"
    if "u \<in> set (re_findall_group number_unit_matcher product_name)" for u
    using number_units_are_units[OF that] unit_word_match by blast
  then have "map py_strip (re_findall_group number_unit_matcher product_name)
             = re_findall_group number_unit_matcher product_name"
    by (simp add: map_idI)
  moreover from u have "filter (\<lambda>token. token \<noteq> []) (re_findall_group number_unit_matcher product_name)
             = re_findall_group number_unit_matcher product_name"
    by (simp add: filter_id_conv)
  ultimately show "tokenize_product_name product_name =
       (if product_name = [] then []
        else filter (\<lambda>token. token \<noteq> [])
               (map py_strip
                  (re_split is_space (py_strip (re_sub_empty number_unit_matcher product_name))))
             @ re_findall_group number_unit_matcher product_name)"
    by (simp add: tokenize_product_name_def)
next
  show "list_all (\<lambda>u. \<not> has_digit u \<and> list_ex (\<lambda>w. list_all2 char_matches_ignorecase w u) unit_words)
        (re_findall_group number_unit_matcher product_name)"
    unfolding list_all_iff list_ex_iff
    using number_units_are_units unit_word_match by blast
qed

end
